theory Spec2Isabelle
  imports Complex_Main
begin

section \<open>Hand-eye calibration (tasks/calibrate.py)\<close>

text \<open>
  The arrays of the program are modelled over the real numbers: a point of an
  \<open>N \<times> 3\<close> array is a triple, the array is the list of its rows, and a
  \<open>3 \<times> 3\<close> array is the triple of its rows.  Only the number of grid points
  per axis, which the program obtains by truncating a float, is computed with the
  rounding of binary64.  The library routines the program calls
  and does not define (\<^verbatim>\<open>np.linalg.svd\<close>, \<^verbatim>\<open>scipy.optimize.minimize\<close>) are
  parameters of the functions that call them.
\<close>

subsection \<open>Exceptions\<close>

datatype error = AssertionError | IndexError | ValueError | OverflowError | LinAlgError

subsection \<open>Vectors and \<open>3 \<times> 3\<close> arrays\<close>

type_synonym vec3 = "real \<times> real \<times> real"
type_synonym mat3 = "vec3 \<times> vec3 \<times> vec3"

fun vadd :: "vec3 \<Rightarrow> vec3 \<Rightarrow> vec3" where
  "vadd (a, b, c) (x, y, z) = (a + x, b + y, c + z)"

fun vsub :: "vec3 \<Rightarrow> vec3 \<Rightarrow> vec3" where
  "vsub (a, b, c) (x, y, z) = (a - x, b - y, c - z)"

fun vdot :: "vec3 \<Rightarrow> vec3 \<Rightarrow> real" where
  "vdot (a, b, c) (x, y, z) = a * x + b * y + c * z"

definition eye3 :: mat3 where
  "eye3 = ((1, 0, 0), (0, 1, 0), (0, 0, 1))"

fun transpose3 :: "mat3 \<Rightarrow> mat3" where
  "transpose3 ((a, b, c), (d, e, f), (g, h, i)) = ((a, d, g), (b, e, h), (c, f, i))"

text \<open>\<^verbatim>\<open>np.dot\<close> of a \<open>3 \<times> 3\<close> array with a vector and with a \<open>3 \<times> 3\<close> array.\<close>

fun mv :: "mat3 \<Rightarrow> vec3 \<Rightarrow> vec3" where
  "mv (r1, r2, r3) v = (vdot r1 v, vdot r2 v, vdot r3 v)"

definition mm :: "mat3 \<Rightarrow> mat3 \<Rightarrow> mat3" where
  "mm X Y = (case transpose3 Y of (c1, c2, c3) \<Rightarrow>
     (case X of (r1, r2, r3) \<Rightarrow>
       ((vdot r1 c1, vdot r1 c2, vdot r1 c3),
        (vdot r2 c1, vdot r2 c2, vdot r2 c3),
        (vdot r3 c1, vdot r3 c2, vdot r3 c3))))"

text \<open>Unary minus on a \<open>3 \<times> 3\<close> array (\<^verbatim>\<open>-R\<close>).\<close>

fun mneg :: "mat3 \<Rightarrow> mat3" where
  "mneg ((a, b, c), (d, e, f), (g, h, i)) = ((- a, - b, - c), (- d, - e, - f), (- g, - h, - i))"

text \<open>\<^verbatim>\<open>np.linalg.det\<close> of a \<open>3 \<times> 3\<close> array.\<close>

fun det3 :: "mat3 \<Rightarrow> real" where
  "det3 ((a, b, c), (d, e, f), (g, h, i)) =
     a * (e * i - f * h) - b * (d * i - f * g) + c * (d * h - e * g)"

text \<open>The in-place update \<^verbatim>\<open>Vt[2, :] *= -1\<close>.\<close>

fun negate_row2 :: "mat3 \<Rightarrow> mat3" where
  "negate_row2 (r0, r1, (g, h, i)) = (r0, r1, (g * (- 1), h * (- 1), i * (- 1)))"

subsection \<open>\<open>N \<times> 3\<close> arrays\<close>

text \<open>
  \<^verbatim>\<open>np.mean(A, axis=0)\<close>: the column means.  On an empty array numpy returns NaN in
  every column; the model has \<open>0\<close> there (division by zero in HOL), so statements
  about the centroid are made for \<open>N \<ge> 1\<close>.
\<close>

definition mean_axis0 :: "vec3 list \<Rightarrow> vec3" where
  "mean_axis0 A =
     (sum_list (map fst A) / real (length A),
      sum_list (map (fst \<circ> snd) A) / real (length A),
      sum_list (map (snd \<circ> snd) A) / real (length A))"

text \<open>\<^verbatim>\<open>np.tile(c, (N, 1))\<close> and the elementwise difference of two \<open>N \<times> 3\<close> arrays.\<close>

definition tile_rows :: "vec3 \<Rightarrow> nat \<Rightarrow> vec3 list" where
  "tile_rows c N = replicate N c"

definition sub_rows :: "vec3 list \<Rightarrow> vec3 list \<Rightarrow> vec3 list" where
  "sub_rows A T = map2 vsub A T"

text \<open>\<^verbatim>\<open>np.transpose\<close> of an \<open>N \<times> 3\<close> array: three rows of length \<open>N\<close>.\<close>

definition transpose_N3 :: "vec3 list \<Rightarrow> real list \<times> real list \<times> real list" where
  "transpose_N3 A = (map fst A, map (fst \<circ> snd) A, map (snd \<circ> snd) A)"

text \<open>\<^verbatim>\<open>np.dot\<close> of a \<open>3 \<times> N\<close> array with an \<open>N \<times> 3\<close> array.\<close>

definition row_dot :: "real list \<Rightarrow> vec3 list \<Rightarrow> vec3" where
  "row_dot r B =
     (sum_list (map2 (*) r (map fst B)),
      sum_list (map2 (*) r (map (fst \<circ> snd) B)),
      sum_list (map2 (*) r (map (snd \<circ> snd) B)))"

definition dot_3N_N3 :: "real list \<times> real list \<times> real list \<Rightarrow> vec3 list \<Rightarrow> mat3" where
  "dot_3N_N3 T B = (case T of (r0, r1, r2) \<Rightarrow> (row_dot r0 B, row_dot r1 B, row_dot r2 B))"

subsection \<open>\<^verbatim>\<open>Calibration._get_rigid_transform\<close>\<close>

text \<open>
  The singular value decomposition is the parameter \<open>svd\<close>: it maps \<open>H\<close> to
  \<open>(U, S, Vt)\<close>.  The function returns the assertion failure as a value.
\<close>

type_synonym svd_fun = "mat3 \<Rightarrow> mat3 \<times> vec3 \<times> mat3"

definition get_rigid_transform ::
  "svd_fun \<Rightarrow> vec3 list \<Rightarrow> vec3 list \<Rightarrow> error + (mat3 \<times> vec3)" where
  "get_rigid_transform svd A B =
     (if length A \<noteq> length B then Inl AssertionError
      else
        let N = length A;
            centroid_A = mean_axis0 A;
            centroid_B = mean_axis0 B;
            AA = sub_rows A (tile_rows centroid_A N);
            BB = sub_rows B (tile_rows centroid_B N);
            H = dot_3N_N3 (transpose_N3 AA) BB
        in case svd H of (U, S, Vt) \<Rightarrow>
          let R = mm (transpose3 Vt) (transpose3 U);
              R = (if det3 R < 0 then mm (transpose3 (negate_row2 Vt)) (transpose3 U) else R);
              t = vadd (mv (mneg R) centroid_A) centroid_B
          in Inr (R, t))"

text \<open>The cross-covariance \<open>H\<close> of lines 40 to 45, the argument of the decomposition.\<close>

definition cross_covariance :: "vec3 list \<Rightarrow> vec3 list \<Rightarrow> mat3" where
  "cross_covariance A B =
     (let N = length A;
          centroid_A = mean_axis0 A;
          centroid_B = mean_axis0 B;
          AA = sub_rows A (tile_rows centroid_A N);
          BB = sub_rows B (tile_rows centroid_B N)
      in dot_3N_N3 (transpose_N3 AA) BB)"

subsection \<open>The state of a \<^verbatim>\<open>Calibration\<close> object\<close>

text \<open>
  The configuration fields set by \<^verbatim>\<open>__init__\<close>, with the intrinsic matrix of the
  camera (\<^verbatim>\<open>self.camera.intrinsics\<close>), and the three sample sequences.
\<close>

record config =
  calib_grid_step :: real
  checkerboard_offset_from_tool :: vec3
  tool_orientation :: vec3
  workspace_limits :: "(real \<times> real) \<times> (real \<times> real) \<times> (real \<times> real)"
  intrinsics :: mat3

record calibration =
  measured_pts :: "vec3 list"
  observed_pts :: "vec3 list"
  observed_pix :: "(int \<times> int) list"

definition init :: calibration where
  "init = \<lparr>measured_pts = [], observed_pts = [], observed_pix = []\<rparr>"

subsection \<open>\<^verbatim>\<open>Calibration._get_rigid_transform_error\<close>\<close>

text \<open>
  Elementwise product of two \<open>N \<times> 1\<close> columns with numpy's broadcasting: equal
  lengths, or one of the two of length one; anything else raises \<^verbatim>\<open>ValueError\<close>.
\<close>

definition np_multiply :: "real list \<Rightarrow> real list \<Rightarrow> error + real list" where
  "np_multiply xs ys =
     (if length xs = length ys then Inr (map2 (*) xs ys)
      else if length xs = 1 then Inr (map (\<lambda>y. hd xs * y) ys)
      else if length ys = 1 then Inr (map (\<lambda>x. x * hd ys) xs)
      else Inl ValueError)"

text \<open>\<^verbatim>\<open>np.concatenate((x, y, z), axis=1)\<close> of three columns.\<close>

definition concatenate_cols :: "real list \<Rightarrow> real list \<Rightarrow> real list \<Rightarrow> error + vec3 list" where
  "concatenate_cols xs ys zs =
     (if length xs = length ys \<and> length ys = length zs then Inr (zip xs (zip ys zs))
      else Inl ValueError)"

text \<open>
  Lines 61 to 66: the observed points recomputed with the depth scaled by \<open>z_scale\<close>.
  After \<^verbatim>\<open>np.asarray\<close> an empty list is an array of shape \<open>(0,)\<close>, on which the
  two-dimensional slices raise \<^verbatim>\<open>IndexError\<close>.
\<close>

definition new_observed_pts :: "mat3 \<Rightarrow> calibration \<Rightarrow> real \<Rightarrow> error + vec3 list" where
  "new_observed_pts K self z_scale =
     (case K of ((fx, k01, cx), (k10, fy, cy), k2) \<Rightarrow>
      if observed_pts self = [] then Inl IndexError
      else
        let observed_z = map (\<lambda>p. snd (snd p) * z_scale) (observed_pts self) in
        if observed_pix self = [] then Inl IndexError
        else
          case np_multiply (map (\<lambda>q. real_of_int (fst q) - cx) (observed_pix self))
                           (map (\<lambda>z. z / fx) observed_z) of
            Inl e \<Rightarrow> Inl e
          | Inr observed_x \<Rightarrow>
             (case np_multiply (map (\<lambda>q. real_of_int (snd q) - cy) (observed_pix self))
                               (map (\<lambda>z. z / fy) observed_z) of
                Inl e \<Rightarrow> Inl e
              | Inr observed_y \<Rightarrow> concatenate_cols observed_x observed_y observed_z))"

text \<open>\<^verbatim>\<open>np.dot\<close> of a \<open>3 \<times> 3\<close> array with a \<open>3 \<times> N\<close> array, the sum of two
  \<open>3 \<times> N\<close> arrays, \<^verbatim>\<open>np.tile(t, (1, N))\<close> of a \<open>3 \<times> 1\<close> column and the transpose
  of a \<open>3 \<times> N\<close> array.\<close>

definition row_comb :: "vec3 \<Rightarrow> real list \<times> real list \<times> real list \<Rightarrow> real list" where
  "row_comb r T = (case r of (a, b, c) \<Rightarrow> case T of (xs, ys, zs) \<Rightarrow>
     map (\<lambda>(x, y, z). a * x + b * y + c * z) (zip xs (zip ys zs)))"

definition dot_33_3N ::
  "mat3 \<Rightarrow> real list \<times> real list \<times> real list \<Rightarrow> real list \<times> real list \<times> real list" where
  "dot_33_3N R T = (case R of (r0, r1, r2) \<Rightarrow> (row_comb r0 T, row_comb r1 T, row_comb r2 T))"

definition tile_cols :: "vec3 \<Rightarrow> nat \<Rightarrow> real list \<times> real list \<times> real list" where
  "tile_cols t N = (case t of (a, b, c) \<Rightarrow> (replicate N a, replicate N b, replicate N c))"

definition add_3N ::
  "real list \<times> real list \<times> real list \<Rightarrow> real list \<times> real list \<times> real list
     \<Rightarrow> real list \<times> real list \<times> real list" where
  "add_3N X Y = (case X of (x0, x1, x2) \<Rightarrow> case Y of (y0, y1, y2) \<Rightarrow>
     (map2 (+) x0 y0, map2 (+) x1 y1, map2 (+) x2 y2))"

definition transpose_3N :: "real list \<times> real list \<times> real list \<Rightarrow> vec3 list" where
  "transpose_3N T = (case T of (xs, ys, zs) \<Rightarrow> zip xs (zip ys zs))"

text \<open>\<^verbatim>\<open>np.sum(np.multiply(error, error))\<close> over an \<open>N \<times> 3\<close> array.\<close>

definition sum_squares :: "vec3 list \<Rightarrow> real" where
  "sum_squares E = sum_list (map (\<lambda>(a, b, c). a * a + b * b + c * c) E)"

text \<open>The \<open>4 \<times> 4\<close> array built from \<open>R\<close> and the column \<open>t\<close> (line 71).\<close>

definition homogeneous :: "mat3 \<Rightarrow> vec3 \<Rightarrow> real list list" where
  "homogeneous R t = (case R of ((a, b, c), (d, e, f), (g, h, i)) \<Rightarrow> case t of (x, y, z) \<Rightarrow>
     [[a, b, c, x], [d, e, f, y], [g, h, i, z]] @ [[0, 0, 0, 1]])"

definition get_rigid_transform_error ::
  "svd_fun \<Rightarrow> mat3 \<Rightarrow> calibration \<Rightarrow> real \<Rightarrow> error + real" where
  "get_rigid_transform_error svd K self z_scale =
     (case new_observed_pts K self z_scale of
        Inl e \<Rightarrow> Inl e
      | Inr new_pts \<Rightarrow>
         (case get_rigid_transform svd (measured_pts self) new_pts of
            Inl e \<Rightarrow> Inl e
          | Inr (R, t) \<Rightarrow>
              let world2camera = homogeneous R t;
                  N = length (measured_pts self);
                  registered_pts = add_3N (dot_33_3N R (transpose_N3 (measured_pts self)))
                                          (tile_cols t N);
                  err = sub_rows (transpose_3N registered_pts) new_pts;
                  err = sum_squares err;
                  rmse = sqrt (err / real N)
              in Inr rmse))"

subsection \<open>Rounding\<close>

text \<open>\<^verbatim>\<open>np.round\<close> rounds a half to the even neighbour.\<close>

definition np_round :: "real \<Rightarrow> int" where
  "np_round x =
     (let f = \<lfloor>x\<rfloor>; d = x - of_int f
      in if d < 1 / 2 then f else if 1 / 2 < d then f + 1 else if even f then f else f + 1)"

text \<open>
  Binary64 arithmetic rounds the exact result of an operation to the nearest double,
  a half to the even neighbour.  The doubles of the binade \<open>2\<^sup>e \<le> \<bar>x\<bar> < 2\<^sup>e\<^sup>+\<^sup>1\<close> are
  the multiples of \<open>2\<^sup>e\<^sup>-\<^sup>5\<^sup>2\<close>, with \<open>e = - 1022\<close> for everything below; \<open>binade\<close>
  finds \<open>e\<close> by counting up from \<open>- 1022\<close>.  A result of magnitude \<open>2\<^sup>1\<^sup>0\<^sup>2\<^sup>4\<close> or more
  is infinite.
\<close>

fun binade_from :: "nat \<Rightarrow> int \<Rightarrow> real \<Rightarrow> int" where
  "binade_from 0 e a = e"
| "binade_from (Suc n) e a = (if a < 2 powi (e + 1) then e else binade_from n (e + 1) a)"

definition binade :: "real \<Rightarrow> int" where
  "binade x = binade_from 2046 (- 1022) \<bar>x\<bar>"

definition fl :: "real \<Rightarrow> real" where
  "fl x = (let ulp = 2 powi (binade x - 52) in real_of_int (np_round (x / ulp)) * ulp)"

definition finite64 :: "real \<Rightarrow> bool" where
  "finite64 x \<longleftrightarrow> \<bar>x\<bar> < 2 powi 1024"

subsection \<open>\<^verbatim>\<open>Calibration._generate_grid\<close>\<close>

text \<open>
  The third argument of \<^verbatim>\<open>np.linspace\<close> is the float \<open>1 + (max - min) / step\<close>,
  computed in binary64: the difference, the quotient and the sum are rounded one after
  the other.  The numpy release the program was written for converts the float with
  \<^verbatim>\<open>int\<close>, which truncates toward zero and raises on an infinite or undefined
  value.
\<close>

definition py_int :: "real \<Rightarrow> int" where
  "py_int x = (if 0 \<le> x then \<lfloor>x\<rfloor> else \<lceil>x\<rceil>)"

definition float_num :: "real \<Rightarrow> real \<Rightarrow> real \<Rightarrow> real" where
  "float_num lo hi step = fl (1 + fl (fl (hi - lo) / step))"

definition num_finite :: "real \<Rightarrow> real \<Rightarrow> real \<Rightarrow> bool" where
  "num_finite lo hi step \<longleftrightarrow>
     finite64 (fl (hi - lo)) \<and> finite64 (fl (fl (hi - lo) / step)) \<and> finite64 (float_num lo hi step)"

definition axis_num :: "real \<Rightarrow> real \<Rightarrow> real \<Rightarrow> error + int" where
  "axis_num lo hi step =
     (if step = 0 then (if fl (hi - lo) = 0 then Inl ValueError else Inl OverflowError)
      else if num_finite lo hi step then Inr (py_int (float_num lo hi step))
      else Inl OverflowError)"

text \<open>\<^verbatim>\<open>np.linspace(start, stop, num)\<close> with the end point included.\<close>

definition linspace :: "real \<Rightarrow> real \<Rightarrow> int \<Rightarrow> error + real list" where
  "linspace start stop num =
     (if num < 0 then Inl ValueError
      else
        let n = nat num;
            y = (if n > 1
                 then map (\<lambda>i. real i * ((stop - start) / real (n - 1)) + start) [0..<n]
                 else map (\<lambda>i. real i * (stop - start) + start) [0..<n])
        in Inr (if n > 1 then y[n - 1 := stop] else y))"

definition gridspace :: "real \<times> real \<Rightarrow> real \<Rightarrow> error + real list" where
  "gridspace limits step =
     (case axis_num (fst limits) (snd limits) step of
        Inl e \<Rightarrow> Inl e
      | Inr num \<Rightarrow> linspace (fst limits) (snd limits) num)"

text \<open>
  \<^verbatim>\<open>np.meshgrid(x, y, z)\<close> with its default indexing: three arrays of shape
  \<open>(len y, len x, len z)\<close>.  Assigning the shape \<open>(num, 1)\<close> flattens them in row-major
  order.
\<close>

definition meshgrid ::
  "real list \<Rightarrow> real list \<Rightarrow> real list
     \<Rightarrow> real list list list \<times> real list list list \<times> real list list list" where
  "meshgrid xs ys zs =
     (map (\<lambda>y. map (\<lambda>x. map (\<lambda>z. x) zs) xs) ys,
      map (\<lambda>y. map (\<lambda>x. map (\<lambda>z. y) zs) xs) ys,
      map (\<lambda>y. map (\<lambda>x. map (\<lambda>z. z) zs) xs) ys)"

definition flatten :: "real list list list \<Rightarrow> real list" where
  "flatten G = concat (concat G)"

definition generate_grid :: "config \<Rightarrow> error + vec3 list" where
  "generate_grid cfg =
     (case workspace_limits cfg of (lx, ly, lz) \<Rightarrow>
      case gridspace lx (calib_grid_step cfg) of Inl e \<Rightarrow> Inl e | Inr gridspace_x \<Rightarrow>
      case gridspace ly (calib_grid_step cfg) of Inl e \<Rightarrow> Inl e | Inr gridspace_y \<Rightarrow>
      case gridspace lz (calib_grid_step cfg) of Inl e \<Rightarrow> Inl e | Inr gridspace_z \<Rightarrow>
      case meshgrid gridspace_x gridspace_y gridspace_z of
        (calib_grid_x, calib_grid_y, calib_grid_z) \<Rightarrow>
          Inr (zip (flatten calib_grid_x) (zip (flatten calib_grid_y) (flatten calib_grid_z))))"

subsection \<open>The collecting loop of \<^verbatim>\<open>Calibration.run\<close>\<close>

text \<open>
  What the camera and the corner detector deliver at one grid point: whether the
  checkerboard was found, the refined corner of index 4 and the aligned depth image
  (a list of rows).
\<close>

record frame =
  checkerboard_found :: bool
  corner4 :: "real \<times> real"
  aligned_depth :: "real list list"

text \<open>Indexing one axis of an array: a negative index counts from the end.\<close>

definition getitem :: "'a list \<Rightarrow> int \<Rightarrow> error + 'a" where
  "getitem xs i =
     (let n = int (length xs); j = (if i < 0 then n + i else i)
      in if 0 \<le> j \<and> j < n then Inr (xs ! nat j) else Inl IndexError)"

text \<open>
  The body of the loop (lines 132 to 166) at one tool position.  The division by a
  focal length is the division of the reals; the focal lengths of a camera are not
  zero.
\<close>

definition collect_sample :: "config \<Rightarrow> vec3 \<Rightarrow> frame \<Rightarrow> calibration \<Rightarrow> error + calibration" where
  "collect_sample cfg tool_position fr self =
     (case intrinsics cfg of ((fx, k01, cx), (k10, fy, cy), k2) \<Rightarrow>
      if checkerboard_found fr then
        let checkerboard_pix = (np_round (fst (corner4 fr)), np_round (snd (corner4 fr))) in
        case getitem (aligned_depth fr) (snd checkerboard_pix) of
          Inl e \<Rightarrow> Inl e
        | Inr depth_row \<Rightarrow>
           (case getitem depth_row (fst checkerboard_pix) of
              Inl e \<Rightarrow> Inl e
            | Inr checkerboard_z \<Rightarrow>
                let checkerboard_x = (real_of_int (fst checkerboard_pix) - cx) * (checkerboard_z / fx);
                    checkerboard_y = (real_of_int (snd checkerboard_pix) - cy) * (checkerboard_z / fy)
                in if checkerboard_z = 0 then Inr self
                   else Inr (self\<lparr>
                     observed_pts := observed_pts self @ [(checkerboard_x, checkerboard_y, checkerboard_z)],
                     measured_pts := measured_pts self
                        @ [vadd tool_position (checkerboard_offset_from_tool cfg)],
                     observed_pix := observed_pix self @ [checkerboard_pix]\<rparr>))
      else Inr self)"

text \<open>
  The loop over the grid; \<open>cam i\<close> is the frame that \<^verbatim>\<open>get_image_bundle\<close> returns
  at iteration \<open>i\<close>.  An exception ends the loop.
\<close>

fun collecting :: "config \<Rightarrow> (nat \<Rightarrow> frame) \<Rightarrow> nat \<Rightarrow> vec3 list \<Rightarrow> calibration \<Rightarrow> error + calibration" where
  "collecting cfg cam i [] self = Inr self"
| "collecting cfg cam i (tool_position # rest) self =
     (case collect_sample cfg tool_position (cam i) self of
        Inl e \<Rightarrow> Inl e
      | Inr self' \<Rightarrow> collecting cfg cam (Suc i) rest self')"

subsection \<open>\<^verbatim>\<open>np.eye\<close> and \<^verbatim>\<open>np.linalg.inv\<close>\<close>

definition eye :: "nat \<Rightarrow> real list list" where
  "eye n = map (\<lambda>i. map (\<lambda>j. if i = j then 1 else 0) [0..<n]) [0..<n]"

definition delete_at :: "nat \<Rightarrow> 'a list \<Rightarrow> 'a list" where
  "delete_at j xs = take j xs @ drop (Suc j) xs"

text \<open>The determinant of a square array, expanded along its first row.\<close>

fun det_ll :: "real list list \<Rightarrow> real" where
  "det_ll [] = 1"
| "det_ll (r # M) =
     sum_list (map (\<lambda>j. (- 1) ^ j * (r ! j) * det_ll (map (delete_at j) M)) [0..<length r])"

text \<open>The inverse of a square array; a singular array raises \<^verbatim>\<open>LinAlgError\<close>.\<close>

definition linalg_inv :: "real list list \<Rightarrow> error + real list list" where
  "linalg_inv M =
     (let d = det_ll M; n = length M
      in if d = 0 then Inl LinAlgError
         else Inr (map (\<lambda>i. map (\<lambda>j.
                (- 1) ^ (i + j) * det_ll (map (delete_at i) (delete_at j M)) / d) [0..<n]) [0..<n]))"

subsection \<open>\<^verbatim>\<open>Calibration.run\<close> up to the saved calibration\<close>

text \<open>
  The one-dimensional minimiser is the parameter \<open>minimize\<close>: called with the
  objective and the initial guess, it returns the minimising argument or the exception
  that ended it.  The result of \<open>run\<close> is what lines 184 and 187 save, with the sample
  sequences.  The motion of the robot and the plots after line 188 are not modelled.
\<close>

type_synonym minimize_fun = "(real \<Rightarrow> error + real) \<Rightarrow> real \<Rightarrow> error + real"

record saved_data =
  camera_depth_scale :: real
  camera_pose :: "real list list"
  samples :: calibration

definition run :: "svd_fun \<Rightarrow> minimize_fun \<Rightarrow> config \<Rightarrow> (nat \<Rightarrow> frame) \<Rightarrow> error + saved_data" where
  "run svd minimize cfg cam =
     (case generate_grid cfg of
        Inl e \<Rightarrow> Inl e
      | Inr calib_grid_pts \<Rightarrow>
         (case collecting cfg cam 0 calib_grid_pts init of
            Inl e \<Rightarrow> Inl e
          | Inr self \<Rightarrow>
              let world2camera = eye 4;
                  z_scale_init = 1
              in case minimize (get_rigid_transform_error svd (intrinsics cfg) self) z_scale_init of
                   Inl e \<Rightarrow> Inl e
                 | Inr camera_depth_offset \<Rightarrow>
                    (case get_rigid_transform_error svd (intrinsics cfg) self camera_depth_offset of
                       Inl e \<Rightarrow> Inl e
                     | Inr rmse \<Rightarrow>
                        (case linalg_inv world2camera of
                           Inl e \<Rightarrow> Inl e
                         | Inr pose \<Rightarrow>
                             Inr \<lparr>camera_depth_scale = camera_depth_offset,
                                  camera_pose = pose,
                                  samples = self\<rparr>))))"

text \<open>The contract of \<^verbatim>\<open>np.linalg.svd\<close> used below: both factors are orthogonal.\<close>

definition orthogonal3 :: "mat3 \<Rightarrow> bool" where
  "orthogonal3 M \<longleftrightarrow> mm M (transpose3 M) = eye3 \<and> mm (transpose3 M) M = eye3"

definition svd_orthogonal :: "svd_fun \<Rightarrow> bool" where
  "svd_orthogonal svd \<longleftrightarrow> (\<forall>H. case svd H of (U, S, Vt) \<Rightarrow> orthogonal3 U \<and> orthogonal3 Vt)"

subsection \<open>Invariants of the sample sequences\<close>

definition nonzero_depths :: "calibration \<Rightarrow> bool" where
  "nonzero_depths self \<longleftrightarrow> (\<forall>q \<in> set (observed_pts self). snd (snd q) \<noteq> 0)"

definition aligned :: "calibration \<Rightarrow> bool" where
  "aligned self \<longleftrightarrow> length (measured_pts self) = length (observed_pts self)
     \<and> length (observed_pts self) = length (observed_pix self)"

subsection \<open>The grid in closed form\<close>



subsection \<open>The objective in closed form\<close>

text \<open>
  The pinhole back-projection of a pixel and its scaled depth, and the squared distance
  of two points, in the words of the specification.
\<close>

definition pinhole :: "mat3 \<Rightarrow> real \<Rightarrow> int \<times> int \<Rightarrow> vec3 \<Rightarrow> vec3" where
  "pinhole K z_scale pix pt =
     (case K of ((fx, k01, cx), (k10, fy, cy), k2) \<Rightarrow>
      case pix of (px, py) \<Rightarrow>
      case pt of (x, y, z) \<Rightarrow>
        ((real_of_int px - cx) * (z * z_scale) / fx,
         (real_of_int py - cy) * (z * z_scale) / fy,
         z * z_scale))"

definition back_projected :: "mat3 \<Rightarrow> calibration \<Rightarrow> real \<Rightarrow> vec3 list" where
  "back_projected K self z_scale = map2 (pinhole K z_scale) (observed_pix self) (observed_pts self)"

definition sq_dist :: "vec3 \<Rightarrow> vec3 \<Rightarrow> real" where
  "sq_dist u v = (case u of (a, b, c) \<Rightarrow> case v of (x, y, z) \<Rightarrow>
     (a - x) ^ 2 + (b - y) ^ 2 + (c - z) ^ 2)"

subsection \<open>The estimator and the objective over an explicit store\<close>

text \<open>
  To state what an evaluation of the objective does to the arrays a
  \<^verbatim>\<open>Calibration\<close> object holds, the estimator and the objective are written once
  more over an explicit store.  An array object is a cell of the store.  Every numpy
  operation that returns a new array allocates a cell; \<^verbatim>\<open>np.asarray\<close> of an array,
  a basic slice and a transpose give the array they are applied to, which is read
  through its cell; the two in-place updates of the source, \<^verbatim>\<open>Vt[2, :] *= -1\<close> and
  \<^verbatim>\<open>t.shape = (3, 1)\<close>, overwrite a cell.
\<close>

datatype ndarray =
    Pts "vec3 list"
  | Pix "(int \<times> int) list"
  | Col "real list"
  | Arr3N "real list \<times> real list \<times> real list"
  | Vec vec3
  | ColVec vec3
  | Mat mat3
  | Arr "real list list"

record store =
  cells :: "nat \<Rightarrow> ndarray"
  next_free :: nat

type_synonym 'a prog = "store \<Rightarrow> (error + 'a) \<times> store"

definition ret :: "'a \<Rightarrow> 'a prog" where
  "ret x s = (Inr x, s)"

definition raise :: "error \<Rightarrow> 'a prog" where
  "raise e s = (Inl e, s)"

definition bind :: "'a prog \<Rightarrow> ('a \<Rightarrow> 'b prog) \<Rightarrow> 'b prog" where
  "bind m f s = (case m s of (Inl e, s') \<Rightarrow> (Inl e, s') | (Inr x, s') \<Rightarrow> f x s')"

definition new_array :: "ndarray \<Rightarrow> nat prog" where
  "new_array v s =
     (Inr (next_free s), s\<lparr>cells := (cells s)(next_free s := v), next_free := Suc (next_free s)\<rparr>)"

definition assign :: "nat \<Rightarrow> ndarray \<Rightarrow> unit prog" where
  "assign a v s = (Inr (), s\<lparr>cells := (cells s)(a := v)\<rparr>)"

definition read_array :: "nat \<Rightarrow> ndarray prog" where
  "read_array a s = (Inr (cells s a), s)"

fun rows3 :: "ndarray \<Rightarrow> vec3 list" where
  "rows3 (Pts A) = A"
| "rows3 _ = []"

definition get_rigid_transform_store :: "svd_fun \<Rightarrow> nat \<Rightarrow> nat \<Rightarrow> (nat \<times> nat) prog" where
  "get_rigid_transform_store svd a b =
     bind (read_array a) (\<lambda>A_array.
     bind (read_array b) (\<lambda>B_array.
       let A = rows3 A_array; B = rows3 B_array in
       if length A \<noteq> length B then raise AssertionError
       else
         let N = length A;
             cA = mean_axis0 A;
             cB = mean_axis0 B;
             AA = sub_rows A (tile_rows cA N);
             BB = sub_rows B (tile_rows cB N);
             H = dot_3N_N3 (transpose_N3 AA) BB
         in
         bind (new_array (Vec cA)) (\<lambda>centroid_A.
         bind (new_array (Vec cB)) (\<lambda>centroid_B.
         bind (new_array (Pts (tile_rows cA N))) (\<lambda>tile_A.
         bind (new_array (Pts AA)) (\<lambda>AA_cell.
         bind (new_array (Pts (tile_rows cB N))) (\<lambda>tile_B.
         bind (new_array (Pts BB)) (\<lambda>BB_cell.
         bind (new_array (Mat H)) (\<lambda>H_cell.
         case svd H of (U, S, Vt) \<Rightarrow>
         bind (new_array (Mat U)) (\<lambda>U_cell.
         bind (new_array (Vec S)) (\<lambda>S_cell.
         bind (new_array (Mat Vt)) (\<lambda>Vt_cell.
         bind (new_array (Mat (mm (transpose3 Vt) (transpose3 U)))) (\<lambda>R_cell.
         bind (if det3 (mm (transpose3 Vt) (transpose3 U)) < 0
               then bind (assign Vt_cell (Mat (negate_row2 Vt))) (\<lambda>_.
                    bind (new_array (Mat (mm (transpose3 (negate_row2 Vt)) (transpose3 U)))) (\<lambda>R_cell.
                    ret (mm (transpose3 (negate_row2 Vt)) (transpose3 U), R_cell)))
               else ret (mm (transpose3 Vt) (transpose3 U), R_cell)) (\<lambda>(R, R_cell).
         bind (new_array (Mat (mneg R))) (\<lambda>neg_R.
         bind (new_array (Vec (mv (mneg R) cA))) (\<lambda>dot_cell.
         bind (new_array (Vec (vadd (mv (mneg R) cA) cB))) (\<lambda>t_cell.
         ret (R_cell, t_cell))))))))))))))))))"

record calibration_cells =
  measured_cell :: nat
  observed_cell :: nat
  pix_cell :: nat

fun pixels :: "ndarray \<Rightarrow> (int \<times> int) list" where
  "pixels (Pix P) = P"
| "pixels _ = []"

fun mat_of :: "ndarray \<Rightarrow> mat3" where
  "mat_of (Mat R) = R"
| "mat_of _ = eye3"

fun vec_of :: "ndarray \<Rightarrow> vec3" where
  "vec_of (Vec t) = t"
| "vec_of (ColVec t) = t"
| "vec_of _ = (0, 0, 0)"

definition get_rigid_transform_error_store ::
  "svd_fun \<Rightarrow> mat3 \<Rightarrow> calibration_cells \<Rightarrow> real \<Rightarrow> real prog" where
  "get_rigid_transform_error_store svd K self z_scale =
     (case K of ((fx, k01, cx), (k10, fy, cy), k2) \<Rightarrow>
      bind (read_array (observed_cell self)) (\<lambda>observed_array.
      let observed = rows3 observed_array in
      if observed = [] then raise IndexError
      else
        let zs = map (\<lambda>p. snd (snd p) * z_scale) observed in
        bind (new_array (Col zs)) (\<lambda>observed_z.
        bind (read_array (pix_cell self)) (\<lambda>pix_array.
        let pix = pixels pix_array in
        if pix = [] then raise IndexError
        else
          bind (new_array (Col (map (\<lambda>q. real_of_int (fst q)) pix))) (\<lambda>pix_0.
          bind (new_array (Col (map (\<lambda>q. real_of_int (fst q) - cx) pix))) (\<lambda>pix_0_cx.
          bind (new_array (Col (map (\<lambda>z. z / fx) zs))) (\<lambda>z_fx.
          case np_multiply (map (\<lambda>q. real_of_int (fst q) - cx) pix) (map (\<lambda>z. z / fx) zs) of
            Inl e \<Rightarrow> raise e
          | Inr xs \<Rightarrow>
          bind (new_array (Col xs)) (\<lambda>observed_x.
          bind (new_array (Col (map (\<lambda>q. real_of_int (snd q)) pix))) (\<lambda>pix_1.
          bind (new_array (Col (map (\<lambda>q. real_of_int (snd q) - cy) pix))) (\<lambda>pix_1_cy.
          bind (new_array (Col (map (\<lambda>z. z / fy) zs))) (\<lambda>z_fy.
          case np_multiply (map (\<lambda>q. real_of_int (snd q) - cy) pix) (map (\<lambda>z. z / fy) zs) of
            Inl e \<Rightarrow> raise e
          | Inr ys \<Rightarrow>
          bind (new_array (Col ys)) (\<lambda>observed_y.
          case concatenate_cols xs ys zs of
            Inl e \<Rightarrow> raise e
          | Inr new_pts \<Rightarrow>
          bind (new_array (Pts new_pts)) (\<lambda>new_observed_pts.
          bind (get_rigid_transform_store svd (measured_cell self) new_observed_pts) (\<lambda>(R_cell, t_cell).
          bind (read_array R_cell) (\<lambda>R_array.
          bind (read_array t_cell) (\<lambda>t_array.
          let R = mat_of R_array; t = vec_of t_array in
          bind (assign t_cell (ColVec t)) (\<lambda>_.
          bind (new_array (Arr (take 3 (homogeneous R t)))) (\<lambda>R_t.
          bind (new_array (Arr [[0, 0, 0, 1]])) (\<lambda>last_row.
          bind (new_array (Arr (homogeneous R t))) (\<lambda>world2camera.
          bind (read_array (measured_cell self)) (\<lambda>measured_array.
          let measured = rows3 measured_array; N = length measured in
          bind (new_array (Arr3N (dot_33_3N R (transpose_N3 measured)))) (\<lambda>dot_cell.
          bind (new_array (Arr3N (tile_cols t N))) (\<lambda>tile_cell.
          let registered = add_3N (dot_33_3N R (transpose_N3 measured)) (tile_cols t N) in
          bind (new_array (Arr3N registered)) (\<lambda>registered_pts.
          let err = sub_rows (transpose_3N registered) new_pts in
          bind (new_array (Pts err)) (\<lambda>error_cell.
          bind (new_array (Pts (map (\<lambda>(a, b, c). (a * a, b * b, c * c)) err))) (\<lambda>squares.
          ret (sqrt (sum_squares err / real N))))))))))))))))))))))))))))"

text \<open>The cells allocated in \<open>s\<close> hold in \<open>s'\<close> what they hold in \<open>s\<close>.\<close>

definition preserved :: "store \<Rightarrow> store \<Rightarrow> bool" where
  "preserved s s' \<longleftrightarrow> next_free s \<le> next_free s' \<and> (\<forall>x < next_free s. cells s' x = cells s x)"

section \<open>Properties\<close>

subsection \<open>Algebra of \<open>3 \<times> 3\<close> arrays\<close>

lemma mat3_cases:
  obtains a b c d e f g h i where "M = ((a, b, c), (d, e, f), (g, h, i :: real))"
  by (metis prod_cases3)

lemma det3_mm: "det3 (mm X Y) = det3 X * det3 Y"
  by (cases X rule: mat3_cases, cases Y rule: mat3_cases) (simp add: mm_def algebra_simps)

lemma det3_transpose3: "det3 (transpose3 M) = det3 M"
  by (cases M rule: mat3_cases) (simp add: algebra_simps)

lemma det3_negate_row2: "det3 (negate_row2 M) = - det3 M"
  by (cases M rule: mat3_cases) (simp add: algebra_simps)

lemma det3_eye3: "det3 eye3 = 1"
  by (simp add: eye3_def)

lemma mm_assoc: "mm (mm X Y) Z = mm X (mm Y Z)"
  by (cases X rule: mat3_cases, cases Y rule: mat3_cases, cases Z rule: mat3_cases)
    (simp add: mm_def algebra_simps)

lemma transpose3_mm: "transpose3 (mm X Y) = mm (transpose3 Y) (transpose3 X)"
  by (cases X rule: mat3_cases, cases Y rule: mat3_cases) (simp add: mm_def algebra_simps)

lemma transpose3_idem: "transpose3 (transpose3 M) = M"
  by (cases M rule: mat3_cases) simp

lemma mm_eye3_left: "mm eye3 M = M"
  by (cases M rule: mat3_cases) (simp add: mm_def eye3_def)

lemma mm_eye3_right: "mm M eye3 = M"
  by (cases M rule: mat3_cases) (simp add: mm_def eye3_def)

lemma orthogonal3_det: "orthogonal3 M \<Longrightarrow> det3 M = 1 \<or> det3 M = - 1"
proof -
  assume "orthogonal3 M"
  then have "det3 (mm M (transpose3 M)) = 1"
    by (simp add: orthogonal3_def det3_eye3)
  then have "det3 M * det3 M = 1"
    by (simp add: det3_mm det3_transpose3)
  then show ?thesis
    by (metis mult_cancel_left1 mult_minus_left square_eq_iff mult.commute)
qed

lemma orthogonal3_transpose3: "orthogonal3 M \<Longrightarrow> orthogonal3 (transpose3 M)"
  by (simp add: orthogonal3_def transpose3_idem)

lemma orthogonal3_mm: "orthogonal3 X \<Longrightarrow> orthogonal3 Y \<Longrightarrow> orthogonal3 (mm X Y)"
proof -
  assume X: "orthogonal3 X" and Y: "orthogonal3 Y"
  have "mm (mm X Y) (transpose3 (mm X Y)) = mm X (mm (mm Y (transpose3 Y)) (transpose3 X))"
    by (simp add: transpose3_mm mm_assoc)
  moreover have "mm (transpose3 (mm X Y)) (mm X Y) = mm (transpose3 Y) (mm (mm (transpose3 X) X) Y)"
    by (simp add: transpose3_mm mm_assoc)
  ultimately show ?thesis
    using X Y by (simp add: orthogonal3_def mm_eye3_left mm_eye3_right)
qed

lemma orthogonal3_negate_row2: "orthogonal3 M \<Longrightarrow> orthogonal3 (negate_row2 M)"
  by (cases M rule: mat3_cases) (simp add: orthogonal3_def mm_def eye3_def)


subsection \<open>The rigid transform estimator\<close>

lemma get_rigid_transform_Inr:
  assumes "length A = length B"
  shows "get_rigid_transform svd A B =
    (case svd (dot_3N_N3 (transpose_N3 (sub_rows A (tile_rows (mean_axis0 A) (length A))))
                (sub_rows B (tile_rows (mean_axis0 B) (length A)))) of
       (U, S, Vt) \<Rightarrow>
         let R = (if det3 (mm (transpose3 Vt) (transpose3 U)) < 0
                  then mm (transpose3 (negate_row2 Vt)) (transpose3 U)
                  else mm (transpose3 Vt) (transpose3 U))
         in Inr (R, vadd (mv (mneg R) (mean_axis0 A)) (mean_axis0 B)))"
  using assms by (simp add: get_rigid_transform_def Let_def split: prod.splits)




text \<open>
  Claim C4.  For point sets of the same length, and a decomposition \<open>(U, S, Vt)\<close> of
  their cross-covariance with orthogonal factors, the estimator returns the candidate
  \<open>Vt\<^sup>T \<cdot> U\<^sup>T\<close> when its determinant is not negative, and otherwise the product
  recomputed from \<open>Vt\<close> with its third row negated; in both cases the rotation returned
  is orthogonal with \<open>det R = 1\<close>.
\<close>

theorem proper_rotation:
  assumes "length A = length B" and "svd_orthogonal svd"
    and "svd (cross_covariance A B) = (U, S, (v0, v1, (g, h, i)))"
  shows "\<exists>R t. get_rigid_transform svd A B = Inr (R, t)
      \<and> R = (if det3 (mm (transpose3 (v0, v1, (g, h, i))) (transpose3 U)) < 0
             then mm (transpose3 (v0, v1, (- g, - h, - i))) (transpose3 U)
             else mm (transpose3 (v0, v1, (g, h, i))) (transpose3 U))
      \<and> det3 R = 1 \<and> orthogonal3 R"
proof -
  let ?Vt = "(v0, v1, (g, h, i))"
  have svd: "svd (dot_3N_N3 (transpose_N3 (sub_rows A (tile_rows (mean_axis0 A) (length A))))
                (sub_rows B (tile_rows (mean_axis0 B) (length A)))) = (U, S, ?Vt)"
    using assms(3) by (simp add: cross_covariance_def Let_def)
  from assms(2) svd have oU: "orthogonal3 U" and oV: "orthogonal3 ?Vt"
    unfolding svd_orthogonal_def by (metis (mono_tags, lifting) case_prod_conv)+
  let ?R0 = "mm (transpose3 ?Vt) (transpose3 U)"
  let ?R1 = "mm (transpose3 (negate_row2 ?Vt)) (transpose3 U)"
  have neg: "negate_row2 ?Vt = (v0, v1, (- g, - h, - i))"
    by simp
  have o0: "orthogonal3 ?R0"
    using oU oV by (simp add: orthogonal3_mm orthogonal3_transpose3)
  have o1: "orthogonal3 ?R1"
    using oU oV orthogonal3_negate_row2 [of ?Vt]
    by (simp only: orthogonal3_mm orthogonal3_transpose3)
  have d1: "det3 ?R1 = - det3 ?R0"
    by (simp only: det3_mm det3_transpose3 det3_negate_row2)
  have "det3 (if det3 ?R0 < 0 then ?R1 else ?R0) = 1"
    using orthogonal3_det [OF o0] d1 by auto
  moreover have "orthogonal3 (if det3 ?R0 < 0 then ?R1 else ?R0)"
    using o0 o1 by simp
  moreover have "get_rigid_transform svd A B =
      Inr (if det3 ?R0 < 0 then ?R1 else ?R0,
           vadd (mv (mneg (if det3 ?R0 < 0 then ?R1 else ?R0)) (mean_axis0 A)) (mean_axis0 B))"
    using assms(1) svd by (simp add: get_rigid_transform_Inr Let_def)
  ultimately show ?thesis
    unfolding neg by blast
qed

text \<open>
  An instance in which the first candidate has determinant \<open>- 1\<close> and the rotation
  returned is the identity, recomputed from the negated third row.
\<close>

theorem proper_rotation_witness:
  "length ([(0, 0, 0), (2, 0, 0), (0, 3, 1)] :: vec3 list) = length ([(1, 1, 1), (1, 3, 1), (4, 1, 0)] :: vec3 list)
   \<and> svd_orthogonal (\<lambda>H. (eye3, (1, 1, 1), ((1, 0, 0), (0, 1, 0), (0, 0, - 1))))
   \<and> (\<lambda>H. (eye3, (1, 1, 1), ((1, 0, 0), (0, 1, 0), (0, 0, - 1)))) (cross_covariance [(0, 0, 0), (2, 0, 0), (0, 3, 1)] [(1, 1, 1), (1, 3, 1), (4, 1, 0)])
       = (eye3, (1, 1, 1), ((1, 0, 0), (0, 1, 0), (0, 0, - 1)))
   \<and> det3 (mm (transpose3 ((1, 0, 0), (0, 1, 0), (0, 0, - 1))) (transpose3 eye3)) < 0
   \<and> get_rigid_transform (\<lambda>H. (eye3, (1, 1, 1), ((1, 0, 0), (0, 1, 0), (0, 0, - 1)))) [(0, 0, 0), (2, 0, 0), (0, 3, 1)] [(1, 1, 1), (1, 3, 1), (4, 1, 0)] = Inr (eye3, (4 / 3, 2 / 3, 1 / 3))
   \<and> eye3 = mm (transpose3 ((1, 0, 0), (0, 1, 0), (- 0, - 0, - (- 1)))) (transpose3 eye3)
   \<and> det3 eye3 = 1 \<and> orthogonal3 eye3"
proof -
  have h: "svd_orthogonal (\<lambda>H. (eye3, (1, 1, 1), ((1, 0, 0), (0, 1, 0), (0, 0, - 1))))"
    by (simp add: svd_orthogonal_def orthogonal3_def mm_def eye3_def)
  have e: "get_rigid_transform (\<lambda>H. (eye3, (1, 1, 1), ((1, 0, 0), (0, 1, 0), (0, 0, - 1)))) [(0, 0, 0), (2, 0, 0), (0, 3, 1)] [(1, 1, 1), (1, 3, 1), (4, 1, 0)] = Inr (eye3, (4 / 3, 2 / 3, 1 / 3))"
    by (simp add: get_rigid_transform_def mean_axis0_def mm_def eye3_def)
  show ?thesis
    using h e proper_rotation [of "[(0, 0, 0), (2, 0, 0), (0, 3, 1)]" "[(1, 1, 1), (1, 3, 1), (4, 1, 0)]"
      "(\<lambda>H. (eye3, (1, 1, 1), ((1, 0, 0), (0, 1, 0), (0, 0, - 1))))" eye3 "(1, 1, 1)"
      "(1, 0, 0)" "(0, 1, 0)" 0 0 "- 1"]
    by (simp add: mm_def eye3_def)
qed

subsection \<open>The collecting loop\<close>

lemma collect_sample_cases:
  assumes "collect_sample cfg p fr self = Inr self'" and "self' \<noteq> self"
  shows "\<exists>x y z pix. z \<noteq> 0 \<and> self' = self\<lparr>
        observed_pts := observed_pts self @ [(x, y, z)],
        measured_pts := measured_pts self @ [vadd p (checkerboard_offset_from_tool cfg)],
        observed_pix := observed_pix self @ [pix]\<rparr>"
proof -
  obtain fx k01 cx k10 fy cy k2 where K: "intrinsics cfg = ((fx, k01, cx), (k10, fy, cy), k2)"
    by (metis prod_cases3)
  from assms have found: "checkerboard_found fr"
    by (cases "checkerboard_found fr") (auto simp: collect_sample_def K)
  let ?pix = "(np_round (fst (corner4 fr)), np_round (snd (corner4 fr)))"
  from assms found obtain depth_row where
    row: "getitem (aligned_depth fr) (snd ?pix) = Inr depth_row"
    by (cases "getitem (aligned_depth fr) (snd ?pix)") (auto simp: collect_sample_def K)
  from assms found row obtain z where z: "getitem depth_row (fst ?pix) = Inr z"
    by (cases "getitem depth_row (fst ?pix)") (auto simp: collect_sample_def K)
  from assms found row z have "z \<noteq> 0"
    by (auto simp: collect_sample_def K)
  with assms(1) found row z have "self' = self\<lparr>
        observed_pts := observed_pts self
          @ [((real_of_int (fst ?pix) - cx) * (z / fx), (real_of_int (snd ?pix) - cy) * (z / fy), z)],
        measured_pts := measured_pts self @ [vadd p (checkerboard_offset_from_tool cfg)],
        observed_pix := observed_pix self @ [?pix]\<rparr>"
    by (simp add: collect_sample_def K)
  with \<open>z \<noteq> 0\<close> show ?thesis
    by blast
qed

lemma collect_sample_nonzero:
  assumes "collect_sample cfg p fr self = Inr self'" and "nonzero_depths self"
  shows "nonzero_depths self'"
proof (cases "self' = self")
  case True
  with assms(2) show ?thesis by simp
next
  case False
  from collect_sample_cases [OF assms(1) False] assms(2) show ?thesis
    by (auto simp: nonzero_depths_def)
qed

lemma collect_sample_aligned:
  assumes "collect_sample cfg p fr self = Inr self'" and "aligned self"
  shows "aligned self'"
proof (cases "self' = self")
  case True
  with assms(2) show ?thesis by simp
next
  case False
  from collect_sample_cases [OF assms(1) False] assms(2) show ?thesis
    by (auto simp: aligned_def)
qed

lemma collecting_invariant:
  assumes step: "\<And>p fr s s'. collect_sample cfg p fr s = Inr s' \<Longrightarrow> P s \<Longrightarrow> P s'"
  shows "collecting cfg cam i pts self = Inr self' \<Longrightarrow> P self \<Longrightarrow> P self'"
proof (induction pts arbitrary: i self)
  case Nil
  then show ?case by simp
next
  case (Cons p pts)
  then show ?case
    by (auto split: sum.splits dest: step)
qed

lemma collecting_append:
  "collecting cfg cam i (ps @ qs) self =
     (case collecting cfg cam i ps self of
        Inl e \<Rightarrow> Inl e
      | Inr s \<Rightarrow> collecting cfg cam (i + length ps) qs s)"
  by (induction ps arbitrary: i self) (auto split: sum.splits)

text \<open>
  Claim C6.  A grid point at which the checkerboard is not found leaves the three
  sequences as they are; so does a grid point whose depth reading at the rounded
  corner pixel is zero; and after the loop every observed point that was retained has
  a nonzero depth.
\<close>

theorem sample_filtering:
  "(\<not> checkerboard_found fr \<longrightarrow> collect_sample cfg p fr self = Inr self)
   \<and> (checkerboard_found fr'
        \<and> getitem (aligned_depth fr') (np_round (snd (corner4 fr'))) = Inr depth_row
        \<and> getitem depth_row (np_round (fst (corner4 fr'))) = Inr 0
      \<longrightarrow> collect_sample cfg p fr' self = Inr self)
   \<and> (collecting cfg cam 0 pts init = Inr self'
      \<longrightarrow> (\<forall>q \<in> set (observed_pts self'). snd (snd q) \<noteq> 0))"
proof (intro conjI impI)
  assume "\<not> checkerboard_found fr"
  then show "collect_sample cfg p fr self = Inr self"
    by (simp add: collect_sample_def split: prod.splits)
next
  assume "checkerboard_found fr'
        \<and> getitem (aligned_depth fr') (np_round (snd (corner4 fr'))) = Inr depth_row
        \<and> getitem depth_row (np_round (fst (corner4 fr'))) = Inr 0"
  then show "collect_sample cfg p fr' self = Inr self"
    by (simp add: collect_sample_def Let_def split: prod.splits)
next
  assume "collecting cfg cam 0 pts init = Inr self'"
  moreover have "nonzero_depths init"
    by (simp add: nonzero_depths_def init_def)
  ultimately have "nonzero_depths self'"
    using collecting_invariant [where P = nonzero_depths] collect_sample_nonzero by blast
  then show "\<forall>q \<in> set (observed_pts self'). snd (snd q) \<noteq> 0"
    by (simp add: nonzero_depths_def)
qed

text \<open>A frame without checkerboard, a frame with a zero reading and a loop over three
  grid points of which one yields a sample.\<close>

theorem sample_filtering_witness:
  "\<not> checkerboard_found \<lparr>checkerboard_found = False, corner4 = (0, 0), aligned_depth = [[0, 0], [0, 3]]\<rparr>
   \<and> collect_sample
        \<lparr>calib_grid_step = 1, checkerboard_offset_from_tool = (0, - 1, 2),
         tool_orientation = (0, 0, 0), workspace_limits = ((0, 2), (0, 0), (0, 0)),
         intrinsics = ((2, 0, 1), (0, 2, 1), (0, 0, 1))\<rparr>
        (0, 0, 0)
        \<lparr>checkerboard_found = False, corner4 = (0, 0), aligned_depth = [[0, 0], [0, 3]]\<rparr> init
       = Inr init
   \<and> (checkerboard_found \<lparr>checkerboard_found = True, corner4 = (1 / 5, 3 / 10), aligned_depth = [[0, 0], [0, 3]]\<rparr>
      \<and> getitem [[0, 0], [0, 3 :: real]] (np_round (3 / 10)) = Inr [0, 0]
      \<and> getitem [0, 0 :: real] (np_round (1 / 5)) = Inr 0)
   \<and> collect_sample
        \<lparr>calib_grid_step = 1, checkerboard_offset_from_tool = (0, - 1, 2),
         tool_orientation = (0, 0, 0), workspace_limits = ((0, 2), (0, 0), (0, 0)),
         intrinsics = ((2, 0, 1), (0, 2, 1), (0, 0, 1))\<rparr>
        (0, 0, 0)
        \<lparr>checkerboard_found = True, corner4 = (1 / 5, 3 / 10), aligned_depth = [[0, 0], [0, 3]]\<rparr> init
       = Inr init
   \<and> collecting
        \<lparr>calib_grid_step = 1, checkerboard_offset_from_tool = (0, - 1, 2),
         tool_orientation = (0, 0, 0), workspace_limits = ((0, 2), (0, 0), (0, 0)),
         intrinsics = ((2, 0, 1), (0, 2, 1), (0, 0, 1))\<rparr>
        (\<lambda>i. if i = 0 then \<lparr>checkerboard_found = True, corner4 = (3 / 5, 6 / 5), aligned_depth = [[0, 0], [0, 3]]\<rparr>
             else if i = 1 then \<lparr>checkerboard_found = True, corner4 = (1 / 5, 3 / 10), aligned_depth = [[0, 0], [0, 3]]\<rparr>
             else \<lparr>checkerboard_found = False, corner4 = (0, 0), aligned_depth = [[0, 0], [0, 3]]\<rparr>)
        0 [(0, 0, 0), (1, 0, 0), (2, 0, 0)] init
       = Inr \<lparr>measured_pts = [(0, - 1, 2)], observed_pts = [(0, 0, 3)], observed_pix = [(1, 1)]\<rparr>
   \<and> snd (snd (hd (observed_pts \<lparr>measured_pts = [(0, - 1, 2)], observed_pts = [(0, 0, 3)],
                                   observed_pix = [(1, 1)]\<rparr>))) \<noteq> 0"
proof -
  have run: "collecting
        \<lparr>calib_grid_step = 1, checkerboard_offset_from_tool = (0, - 1, 2),
         tool_orientation = (0, 0, 0), workspace_limits = ((0, 2), (0, 0), (0, 0)),
         intrinsics = ((2, 0, 1), (0, 2, 1), (0, 0, 1))\<rparr>
        (\<lambda>i. if i = 0 then \<lparr>checkerboard_found = True, corner4 = (3 / 5, 6 / 5), aligned_depth = [[0, 0], [0, 3]]\<rparr>
             else if i = 1 then \<lparr>checkerboard_found = True, corner4 = (1 / 5, 3 / 10), aligned_depth = [[0, 0], [0, 3]]\<rparr>
             else \<lparr>checkerboard_found = False, corner4 = (0, 0), aligned_depth = [[0, 0], [0, 3]]\<rparr>)
        0 [(0, 0, 0), (1, 0, 0), (2, 0, 0)] init
       = Inr \<lparr>measured_pts = [(0, - 1, 2)], observed_pts = [(0, 0, 3)], observed_pix = [(1, 1)]\<rparr>"
    by (simp add: collect_sample_def getitem_def np_round_def init_def Let_def)
  have idx: "getitem [[0, 0], [0, 3 :: real]] (np_round (3 / 10)) = Inr [0, 0]"
    "getitem [0, 0 :: real] (np_round (1 / 5)) = Inr 0"
    by (simp_all add: getitem_def np_round_def Let_def)
  show ?thesis
    using run idx
      sample_filtering [where fr = "\<lparr>checkerboard_found = False, corner4 = (0, 0), aligned_depth = [[0, 0], [0, 3]]\<rparr>"
        and fr' = "\<lparr>checkerboard_found = True, corner4 = (1 / 5, 3 / 10), aligned_depth = [[0, 0], [0, 3]]\<rparr>"
        and depth_row = "[0, 0]" and self = init and p = "(0, 0, 0)"
        and cfg = "\<lparr>calib_grid_step = 1, checkerboard_offset_from_tool = (0, - 1, 2),
         tool_orientation = (0, 0, 0), workspace_limits = ((0, 2), (0, 0), (0, 0)),
         intrinsics = ((2, 0, 1), (0, 2, 1), (0, 0, 1))\<rparr>"
        and cam = "\<lambda>i. if i = 0 then \<lparr>checkerboard_found = True, corner4 = (3 / 5, 6 / 5), aligned_depth = [[0, 0], [0, 3]]\<rparr>
             else if i = 1 then \<lparr>checkerboard_found = True, corner4 = (1 / 5, 3 / 10), aligned_depth = [[0, 0], [0, 3]]\<rparr>
             else \<lparr>checkerboard_found = False, corner4 = (0, 0), aligned_depth = [[0, 0], [0, 3]]\<rparr>"
        and pts = "[(0, 0, 0), (1, 0, 0), (2, 0, 0)]"
        and self' = "\<lparr>measured_pts = [(0, - 1, 2)], observed_pts = [(0, 0, 3)], observed_pix = [(1, 1)]\<rparr>"]
    by simp
qed

text \<open>
  Claim C8.  One iteration of the loop either leaves the three sequences unchanged or
  appends exactly one element to each of them, and after any number \<open>n\<close> of
  iterations the three sequences have the same length.
\<close>

theorem sequences_aligned:
  "(collect_sample cfg p fr self = Inr self' \<longrightarrow>
      self' = self
      \<or> (\<exists>m ob px. measured_pts self' = measured_pts self @ [m]
            \<and> observed_pts self' = observed_pts self @ [ob]
            \<and> observed_pix self' = observed_pix self @ [px]))
   \<and> (collecting cfg cam 0 (take n pts) init = Inr self'' \<longrightarrow>
        length (measured_pts self'') = length (observed_pts self'')
        \<and> length (observed_pts self'') = length (observed_pix self''))"
proof (intro conjI impI)
  assume step: "collect_sample cfg p fr self = Inr self'"
  show "self' = self
      \<or> (\<exists>m ob px. measured_pts self' = measured_pts self @ [m]
            \<and> observed_pts self' = observed_pts self @ [ob]
            \<and> observed_pix self' = observed_pix self @ [px])"
  proof (cases "self' = self")
    case True
    then show ?thesis by simp
  next
    case False
    from collect_sample_cases [OF step False] obtain x y z pix where
      "self' = self\<lparr>
        observed_pts := observed_pts self @ [(x, y, z)],
        measured_pts := measured_pts self @ [vadd p (checkerboard_offset_from_tool cfg)],
        observed_pix := observed_pix self @ [pix]\<rparr>"
      by blast
    then have "measured_pts self' = measured_pts self @ [vadd p (checkerboard_offset_from_tool cfg)]"
      and "observed_pts self' = observed_pts self @ [(x, y, z)]"
      and "observed_pix self' = observed_pix self @ [pix]"
      by simp_all
    then show ?thesis by blast
  qed
next
  assume "collecting cfg cam 0 (take n pts) init = Inr self''"
  moreover have "aligned init"
    by (simp add: aligned_def init_def)
  ultimately have "aligned self''"
    using collecting_invariant [where P = aligned] collect_sample_aligned by blast
  then show "length (measured_pts self'') = length (observed_pts self'')"
    and "length (observed_pts self'') = length (observed_pix self'')"
    by (simp_all add: aligned_def)
qed


text \<open>An iteration that appends a sample, and the state after two iterations.\<close>

theorem sequences_aligned_witness:
  "collect_sample
        \<lparr>calib_grid_step = 1, checkerboard_offset_from_tool = (0, - 1, 2),
         tool_orientation = (0, 0, 0), workspace_limits = ((0, 2), (0, 0), (0, 0)),
         intrinsics = ((2, 0, 1), (0, 2, 1), (0, 0, 1))\<rparr>
        (0, 0, 0) \<lparr>checkerboard_found = True, corner4 = (3 / 5, 6 / 5), aligned_depth = [[0, 0], [0, 3]]\<rparr> init
     = Inr \<lparr>measured_pts = [(0, - 1, 2)], observed_pts = [(0, 0, 3)], observed_pix = [(1, 1)]\<rparr>
   \<and> (\<lparr>measured_pts = [(0, - 1, 2)], observed_pts = [(0, 0, 3)], observed_pix = [(1, 1)]\<rparr> = init
      \<or> (\<exists>m ob px. measured_pts \<lparr>measured_pts = [(0, - 1, 2)], observed_pts = [(0, 0, 3)], observed_pix = [(1, 1)]\<rparr> = measured_pts init @ [m]
            \<and> observed_pts \<lparr>measured_pts = [(0, - 1, 2)], observed_pts = [(0, 0, 3)], observed_pix = [(1, 1)]\<rparr> = observed_pts init @ [ob]
            \<and> observed_pix \<lparr>measured_pts = [(0, - 1, 2)], observed_pts = [(0, 0, 3)], observed_pix = [(1, 1)]\<rparr> = observed_pix init @ [px]))
   \<and> collecting
        \<lparr>calib_grid_step = 1, checkerboard_offset_from_tool = (0, - 1, 2),
         tool_orientation = (0, 0, 0), workspace_limits = ((0, 2), (0, 0), (0, 0)),
         intrinsics = ((2, 0, 1), (0, 2, 1), (0, 0, 1))\<rparr>
        (\<lambda>i. if i = 0 then \<lparr>checkerboard_found = True, corner4 = (3 / 5, 6 / 5), aligned_depth = [[0, 0], [0, 3]]\<rparr>
             else if i = 1 then \<lparr>checkerboard_found = True, corner4 = (1 / 5, 3 / 10), aligned_depth = [[0, 0], [0, 3]]\<rparr>
             else \<lparr>checkerboard_found = False, corner4 = (0, 0), aligned_depth = [[0, 0], [0, 3]]\<rparr>)
        0 (take 2 [(0, 0, 0), (1, 0, 0), (2, 0, 0)]) init
     = Inr \<lparr>measured_pts = [(0, - 1, 2)], observed_pts = [(0, 0, 3)], observed_pix = [(1, 1)]\<rparr>
   \<and> length (measured_pts \<lparr>measured_pts = [(0, - 1, 2)], observed_pts = [(0, 0, 3)], observed_pix = [(1, 1)]\<rparr>) = length (observed_pts \<lparr>measured_pts = [(0, - 1, 2)], observed_pts = [(0, 0, 3)], observed_pix = [(1, 1)]\<rparr>)
   \<and> length (observed_pts \<lparr>measured_pts = [(0, - 1, 2)], observed_pts = [(0, 0, 3)], observed_pix = [(1, 1)]\<rparr>) = length (observed_pix \<lparr>measured_pts = [(0, - 1, 2)], observed_pts = [(0, 0, 3)], observed_pix = [(1, 1)]\<rparr>)"
proof -
  have step: "collect_sample
        \<lparr>calib_grid_step = 1, checkerboard_offset_from_tool = (0, - 1, 2),
         tool_orientation = (0, 0, 0), workspace_limits = ((0, 2), (0, 0), (0, 0)),
         intrinsics = ((2, 0, 1), (0, 2, 1), (0, 0, 1))\<rparr>
        (0, 0, 0) \<lparr>checkerboard_found = True, corner4 = (3 / 5, 6 / 5), aligned_depth = [[0, 0], [0, 3]]\<rparr> init
     = Inr \<lparr>measured_pts = [(0, - 1, 2)], observed_pts = [(0, 0, 3)], observed_pix = [(1, 1)]\<rparr>"
    by (simp add: collect_sample_def getitem_def np_round_def init_def Let_def)
  have loop: "collecting
        \<lparr>calib_grid_step = 1, checkerboard_offset_from_tool = (0, - 1, 2),
         tool_orientation = (0, 0, 0), workspace_limits = ((0, 2), (0, 0), (0, 0)),
         intrinsics = ((2, 0, 1), (0, 2, 1), (0, 0, 1))\<rparr>
        (\<lambda>i. if i = 0 then \<lparr>checkerboard_found = True, corner4 = (3 / 5, 6 / 5), aligned_depth = [[0, 0], [0, 3]]\<rparr>
             else if i = 1 then \<lparr>checkerboard_found = True, corner4 = (1 / 5, 3 / 10), aligned_depth = [[0, 0], [0, 3]]\<rparr>
             else \<lparr>checkerboard_found = False, corner4 = (0, 0), aligned_depth = [[0, 0], [0, 3]]\<rparr>)
        0 (take 2 [(0, 0, 0), (1, 0, 0), (2, 0, 0)]) init
     = Inr \<lparr>measured_pts = [(0, - 1, 2)], observed_pts = [(0, 0, 3)], observed_pix = [(1, 1)]\<rparr>"
    by (simp add: collect_sample_def getitem_def np_round_def init_def Let_def)
  show ?thesis
    using step loop
      sequences_aligned [where cfg = "\<lparr>calib_grid_step = 1, checkerboard_offset_from_tool = (0, - 1, 2),
         tool_orientation = (0, 0, 0), workspace_limits = ((0, 2), (0, 0), (0, 0)),
         intrinsics = ((2, 0, 1), (0, 2, 1), (0, 0, 1))\<rparr>"
        and p = "(0, 0, 0)" and fr = "\<lparr>checkerboard_found = True, corner4 = (3 / 5, 6 / 5), aligned_depth = [[0, 0], [0, 3]]\<rparr>" and self = init
        and self' = "\<lparr>measured_pts = [(0, - 1, 2)], observed_pts = [(0, 0, 3)], observed_pix = [(1, 1)]\<rparr>"
        and cam = "(\<lambda>i. if i = 0 then \<lparr>checkerboard_found = True, corner4 = (3 / 5, 6 / 5), aligned_depth = [[0, 0], [0, 3]]\<rparr>
             else if i = 1 then \<lparr>checkerboard_found = True, corner4 = (1 / 5, 3 / 10), aligned_depth = [[0, 0], [0, 3]]\<rparr>
             else \<lparr>checkerboard_found = False, corner4 = (0, 0), aligned_depth = [[0, 0], [0, 3]]\<rparr>)"
        and n = 2 and pts = "[(0, 0, 0), (1, 0, 0), (2, 0, 0)]"
        and self'' = "\<lparr>measured_pts = [(0, - 1, 2)], observed_pts = [(0, 0, 3)], observed_pix = [(1, 1)]\<rparr>"]
    by blast
qed

subsection \<open>Grid generation\<close>








subsection \<open>The depth-scale objective\<close>

lemma back_projection_zip:
  assumes "length pix = length pts"
  shows "zip (map2 (*) (map (\<lambda>q. real_of_int (fst q) - cx) pix)
                       (map (\<lambda>z. z / fx) (map (\<lambda>p. snd (snd p) * s) pts)))
          (zip (map2 (*) (map (\<lambda>q. real_of_int (snd q) - cy) pix)
                         (map (\<lambda>z. z / fy) (map (\<lambda>p. snd (snd p) * s) pts)))
               (map (\<lambda>p. snd (snd p) * s) pts))
    = map2 (pinhole ((fx, k01, cx), (k10, fy, cy), k2) s) pix pts"
  using assms by (induction pix pts rule: list_induct2) (auto simp: pinhole_def)

lemma new_observed_pts_eq:
  assumes "length (observed_pix self) = length (observed_pts self)" and "observed_pts self \<noteq> []"
  shows "new_observed_pts K self z_scale = Inr (back_projected K self z_scale)"
proof -
  obtain fx k01 cx k10 fy cy k2 where K: "K = ((fx, k01, cx), (k10, fy, cy), k2)"
    by (metis prod_cases3)
  from assms have ne: "observed_pix self \<noteq> []" by auto
  show ?thesis
    using assms ne back_projection_zip [OF assms(1), of cx fx z_scale cy fy k01 k10 k2]
    by (simp add: new_observed_pts_def K np_multiply_def concatenate_cols_def back_projected_def
        Let_def)
qed

lemma registered_pts_eq:
  "transpose_3N (add_3N (dot_33_3N R (transpose_N3 M)) (tile_cols t (length M)))
     = map (\<lambda>m. vadd (mv R m) t) M"
proof -
  obtain r0 r1 r2 where R: "R = (r0, r1, r2)" by (metis prod_cases3)
  obtain a b c where t: "t = (a, b, c)" by (metis prod_cases3)
  show ?thesis
    unfolding R t
    by (induction M)
      (auto simp: transpose_3N_def add_3N_def dot_33_3N_def transpose_N3_def tile_cols_def
        row_comb_def split: prod.splits)
qed

lemma sq_dist_vsub: "(case vsub x y of (a, b, c) \<Rightarrow> a * a + b * b + c * c) = sq_dist x y"
  by (cases x, cases y) (simp add: sq_dist_def power2_eq_square)

lemma sum_squares_sub_rows:
  "sum_squares (sub_rows X Y) = sum_list (map2 sq_dist X Y)"
  by (induction X arbitrary: Y; case_tac Y)
    (simp_all add: sum_squares_def sub_rows_def sq_dist_vsub)

lemma sum_list_sq_dist_nonneg: "0 \<le> sum_list (map2 sq_dist X Y)"
  by (rule sum_list_nonneg) (auto simp: sq_dist_def)

lemma get_rigid_transform_error_eq:
  assumes "length (measured_pts self) = length (observed_pts self)"
    and "length (observed_pix self) = length (observed_pts self)"
    and "observed_pts self \<noteq> []"
    and "get_rigid_transform svd (measured_pts self) (back_projected K self z_scale) = Inr (R, t)"
  shows "get_rigid_transform_error svd K self z_scale =
     Inr (sqrt (sum_list (map2 sq_dist (map (\<lambda>m. vadd (mv R m) t) (measured_pts self))
                                        (back_projected K self z_scale))
                / real (length (measured_pts self))))"
  using assms(4)
  by (simp add: get_rigid_transform_error_def new_observed_pts_eq [OF assms(2,3)]
      registered_pts_eq sum_squares_sub_rows Let_def)


lemma get_rigid_transform_total:
  assumes "length A = length B"
  shows "\<exists>R t. get_rigid_transform svd A B = Inr (R, t)"
proof -
  obtain U S Vt where
    "svd (dot_3N_N3 (transpose_N3 (sub_rows A (tile_rows (mean_axis0 A) (length A))))
                (sub_rows B (tile_rows (mean_axis0 B) (length A)))) = (U, S, Vt)"
    by (metis prod_cases3)
  then have "get_rigid_transform svd A B =
      Inr (if det3 (mm (transpose3 Vt) (transpose3 U)) < 0
           then mm (transpose3 (negate_row2 Vt)) (transpose3 U)
           else mm (transpose3 Vt) (transpose3 U),
           vadd (mv (mneg (if det3 (mm (transpose3 Vt) (transpose3 U)) < 0
                           then mm (transpose3 (negate_row2 Vt)) (transpose3 U)
                           else mm (transpose3 Vt) (transpose3 U))) (mean_axis0 A)) (mean_axis0 B))"
    using assms by (simp add: get_rigid_transform_Inr Let_def)
  then show ?thesis by blast
qed

lemma length_back_projected:
  "length (observed_pix self) = length (observed_pts self) \<Longrightarrow>
   length (back_projected K self z_scale) = length (observed_pts self)"
  by (simp add: back_projected_def)

text \<open>
  Claim C7.  For a nonempty set of \<open>N\<close> index-aligned samples (in particular
  \<open>N \<ge> 3\<close>), nonzero focal lengths and every \<open>z_scale\<close>, the objective fits
  \<open>(R, t)\<close> to the measured points and the pinhole back-projections
  \<open>((px - cx) \<cdot> (z \<cdot> z_scale) / fx, (py - cy) \<cdot> (z \<cdot> z_scale) / fy, z \<cdot> z_scale)\<close>
  and returns the square root of the sum, over the samples and the three axes, of the
  squared components of \<open>(R \<cdot> m + t) - b\<close>, divided by \<open>N\<close>; the value is not
  negative.
\<close>

theorem objective_rmse:
  assumes "length (measured_pts self) = N" and "length (observed_pts self) = N"
    and "length (observed_pix self) = N" and "0 < N"
    and "K = ((fx, k01, cx), (k10, fy, cy), k2)" and "fx \<noteq> 0" and "fy \<noteq> 0"
  shows "\<exists>R t rmse.
      get_rigid_transform svd (measured_pts self) (back_projected K self z_scale) = Inr (R, t)
    \<and> get_rigid_transform_error svd K self z_scale = Inr rmse
    \<and> rmse = sqrt (sum_list (map2 sq_dist (map (\<lambda>m. vadd (mv R m) t) (measured_pts self))
                                            (back_projected K self z_scale)) / real N)
    \<and> 0 \<le> rmse"
proof -
  have len: "length (measured_pts self) = length (observed_pts self)"
    "length (observed_pix self) = length (observed_pts self)" "observed_pts self \<noteq> []"
    using assms(1-4) by auto
  from get_rigid_transform_total [of "measured_pts self" "back_projected K self z_scale" svd]
  obtain R t where
    Rt: "get_rigid_transform svd (measured_pts self) (back_projected K self z_scale) = Inr (R, t)"
    using len by (auto simp: length_back_projected)
  let ?e = "sum_list (map2 sq_dist (map (\<lambda>m. vadd (mv R m) t) (measured_pts self))
                                    (back_projected K self z_scale))"
  have "get_rigid_transform_error svd K self z_scale = Inr (sqrt (?e / real N))"
    using get_rigid_transform_error_eq [OF len Rt] assms(1) by simp
  moreover have "0 \<le> sqrt (?e / real N)"
    using sum_list_sq_dist_nonneg [of "map (\<lambda>m. vadd (mv R m) t) (measured_pts self)"
        "back_projected K self z_scale"]
    by simp
  ultimately show ?thesis
    using Rt by blast
qed

text \<open>
  Three samples whose objective is \<open>2\<close> at the scale \<open>1 / 2\<close>.
\<close>

theorem objective_rmse_witness:
  "length (measured_pts \<lparr>measured_pts = [(2, 2, 0), (5, 2, 0), (2, 5, 0)],
          observed_pts = [(6, 6, 2), (12, 6, 2), (0, 6, 2)],
          observed_pix = [(3, 3), (6, 3), (0, 3)]\<rparr>) = 3 \<and> length (observed_pts \<lparr>measured_pts = [(2, 2, 0), (5, 2, 0), (2, 5, 0)],
          observed_pts = [(6, 6, 2), (12, 6, 2), (0, 6, 2)],
          observed_pix = [(3, 3), (6, 3), (0, 3)]\<rparr>) = 3
   \<and> length (observed_pix \<lparr>measured_pts = [(2, 2, 0), (5, 2, 0), (2, 5, 0)],
          observed_pts = [(6, 6, 2), (12, 6, 2), (0, 6, 2)],
          observed_pix = [(3, 3), (6, 3), (0, 3)]\<rparr>) = 3 \<and> (0 :: nat) < 3
   \<and> eye3 = ((1, 0, 0), (0, 1, 0), (0, 0, 1)) \<and> (1 :: real) \<noteq> 0
   \<and> back_projected eye3 \<lparr>measured_pts = [(2, 2, 0), (5, 2, 0), (2, 5, 0)],
          observed_pts = [(6, 6, 2), (12, 6, 2), (0, 6, 2)],
          observed_pix = [(3, 3), (6, 3), (0, 3)]\<rparr> (1 / 2) = [(3, 3, 1), (6, 3, 1), (0, 3, 1)]
   \<and> get_rigid_transform (\<lambda>H. (eye3, (1, 1, 1), eye3)) (measured_pts \<lparr>measured_pts = [(2, 2, 0), (5, 2, 0), (2, 5, 0)],
          observed_pts = [(6, 6, 2), (12, 6, 2), (0, 6, 2)],
          observed_pix = [(3, 3), (6, 3), (0, 3)]\<rparr>) (back_projected eye3 \<lparr>measured_pts = [(2, 2, 0), (5, 2, 0), (2, 5, 0)],
          observed_pts = [(6, 6, 2), (12, 6, 2), (0, 6, 2)],
          observed_pix = [(3, 3), (6, 3), (0, 3)]\<rparr> (1 / 2))
       = Inr (eye3, (0, 0, 1))
   \<and> get_rigid_transform_error (\<lambda>H. (eye3, (1, 1, 1), eye3)) eye3 \<lparr>measured_pts = [(2, 2, 0), (5, 2, 0), (2, 5, 0)],
          observed_pts = [(6, 6, 2), (12, 6, 2), (0, 6, 2)],
          observed_pix = [(3, 3), (6, 3), (0, 3)]\<rparr> (1 / 2) = Inr 2
   \<and> (2 :: real) = sqrt (sum_list (map2 sq_dist (map (\<lambda>m. vadd (mv eye3 m) (0, 0, 1)) (measured_pts \<lparr>measured_pts = [(2, 2, 0), (5, 2, 0), (2, 5, 0)],
          observed_pts = [(6, 6, 2), (12, 6, 2), (0, 6, 2)],
          observed_pix = [(3, 3), (6, 3), (0, 3)]\<rparr>))
                                            (back_projected eye3 \<lparr>measured_pts = [(2, 2, 0), (5, 2, 0), (2, 5, 0)],
          observed_pts = [(6, 6, 2), (12, 6, 2), (0, 6, 2)],
          observed_pix = [(3, 3), (6, 3), (0, 3)]\<rparr> (1 / 2))) / real (3 :: nat))
   \<and> (0 :: real) \<le> 2"
proof -
  have bp: "back_projected eye3 \<lparr>measured_pts = [(2, 2, 0), (5, 2, 0), (2, 5, 0)],
          observed_pts = [(6, 6, 2), (12, 6, 2), (0, 6, 2)],
          observed_pix = [(3, 3), (6, 3), (0, 3)]\<rparr> (1 / 2) = [(3, 3, 1), (6, 3, 1), (0, 3, 1)]"
    by (simp add: back_projected_def pinhole_def eye3_def)
  have rt: "get_rigid_transform (\<lambda>H. (eye3, (1, 1, 1), eye3)) [(2, 2, 0), (5, 2, 0), (2, 5, 0)] [(3, 3, 1), (6, 3, 1), (0, 3, 1)]
       = Inr (eye3, (0, 0, 1))"
    by (simp add: get_rigid_transform_def mean_axis0_def mm_def eye3_def)
  show ?thesis
    using bp rt
      objective_rmse [of "\<lparr>measured_pts = [(2, 2, 0), (5, 2, 0), (2, 5, 0)],
          observed_pts = [(6, 6, 2), (12, 6, 2), (0, 6, 2)],
          observed_pix = [(3, 3), (6, 3), (0, 3)]\<rparr>" 3 eye3 1 0 0 0 1 0 "(0, 0, 1)" "(\<lambda>H. (eye3, (1, 1, 1), eye3))" "1 / 2"]
    by (auto simp: eye3_def sq_dist_def)
qed

subsection \<open>Binary64 rounding and the grid\<close>

lemma binade_from_eqI:
  "e0 \<le> e \<Longrightarrow> e \<le> e0 + int n \<Longrightarrow> (e0 < e \<Longrightarrow> 2 powi e \<le> a)
    \<Longrightarrow> (e < e0 + int n \<Longrightarrow> a < 2 powi (e + 1)) \<Longrightarrow> binade_from n e0 a = e"
proof (induction n arbitrary: e0)
  case 0
  then show ?case by simp
next
  case (Suc n)
  show ?case
  proof (cases "a < 2 powi (e0 + 1)")
    case True
    have "e = e0"
    proof (rule ccontr)
      assume "e \<noteq> e0"
      with Suc.prems have "e0 + 1 \<le> e" and "2 powi e \<le> a" by auto
      then have "(2::real) powi (e0 + 1) \<le> 2 powi e"
        by (intro power_int_increasing) auto
      with True \<open>2 powi e \<le> a\<close> show False by linarith
    qed
    with True show ?thesis by simp
  next
    case False
    have "e0 < e"
    proof (rule ccontr)
      assume "\<not> e0 < e"
      with Suc.prems have "e = e0" by auto
      with Suc.prems have "a < 2 powi (e0 + 1)" by auto
      with False show False by simp
    qed
    then have "binade_from n (e0 + 1) a = e"
      using Suc.prems by (intro Suc.IH) auto
    with False show ?thesis by simp
  qed
qed

lemma binade_eqI:
  assumes "- 1022 \<le> e" and "e \<le> 1023" and "2 powi e \<le> \<bar>x\<bar>" and "\<bar>x\<bar> < 2 powi (e + 1)"
  shows "binade x = e"
  unfolding binade_def using assms by (intro binade_from_eqI) auto

lemma fl_eval:
  assumes "- 1022 \<le> e" and "e \<le> 1023" and "2 powi e \<le> \<bar>x\<bar>" and "\<bar>x\<bar> < 2 powi (e + 1)"
  shows "fl x = real_of_int (np_round (x / 2 powi (e - 52))) * 2 powi (e - 52)"
  by (simp add: fl_def Let_def binade_eqI [OF assms])


















subsection \<open>The run up to the saved calibration\<close>

lemma upt_4: "[0..<4] = [0, 1, 2, 3]"
  by (simp add: upt_rec)

lemma upt_3: "[0..<3] = [0, 1, 2]"
  by (simp add: upt_rec)

lemma upt_2: "[0..<2] = [0, 1]"
  by (simp add: upt_rec)

lemma det_ll_3: "det_ll [[a, b, c], [d, e, f], [g, h, i]]
    = a * (e * i - f * h) - b * (d * i - f * g) + c * (d * h - e * g)"
  by (simp add: delete_at_def upt_3 upt_2 algebra_simps)

lemma det_ll_4:
  "det_ll [[a0, a1, a2, a3], [b0, b1, b2, b3], [c0, c1, c2, c3], [d0, d1, d2, d3]]
    = a0 * det_ll [[b1, b2, b3], [c1, c2, c3], [d1, d2, d3]]
    - a1 * det_ll [[b0, b2, b3], [c0, c2, c3], [d0, d2, d3]]
    + a2 * det_ll [[b0, b1, b3], [c0, c1, c3], [d0, d1, d3]]
    - a3 * det_ll [[b0, b1, b2], [c0, c1, c2], [d0, d1, d2]]"
  by (subst det_ll.simps(2)) (simp add: upt_4 delete_at_def del: det_ll.simps)

lemma eye_4: "eye 4 = [[1, 0, 0, 0], [0, 1, 0, 0], [0, 0, 1, 0], [0, 0, 0, 1]]"
  by (simp add: eye_def upt_4)

lemma linalg_inv_eye4: "linalg_inv (eye 4) = Inr (eye 4)"
  unfolding eye_4
  by (simp add: linalg_inv_def delete_at_def upt_4 det_ll_4 det_ll_3 Let_def del: det_ll.simps)

lemma collecting_aligned:
  "collecting cfg cam i pts init = Inr self \<Longrightarrow> aligned self"
proof -
  assume "collecting cfg cam i pts init = Inr self"
  moreover have "aligned init"
    by (simp add: aligned_def init_def)
  ultimately show ?thesis
    using collecting_invariant [where P = aligned] collect_sample_aligned by blast
qed

lemma objective_total:
  assumes "aligned self" and "measured_pts self \<noteq> []"
  shows "\<exists>rmse. get_rigid_transform_error svd K self z_scale = Inr rmse"
proof -
  have len: "length (measured_pts self) = length (observed_pts self)"
    "length (observed_pix self) = length (observed_pts self)" "observed_pts self \<noteq> []"
    using assms by (auto simp: aligned_def)
  from get_rigid_transform_total [of "measured_pts self" "back_projected K self z_scale" svd]
  obtain R t where
    "get_rigid_transform svd (measured_pts self) (back_projected K self z_scale) = Inr (R, t)"
    using len by (auto simp: length_back_projected)
  from get_rigid_transform_error_eq [OF len this] show ?thesis by blast
qed

lemma objective_empty:
  assumes "aligned self" and "measured_pts self = []"
  shows "get_rigid_transform_error svd K self z_scale = Inl IndexError"
proof -
  from assms have "observed_pts self = []" by (simp add: aligned_def)
  then show ?thesis
    by (simp add: get_rigid_transform_error_def new_observed_pts_def split: prod.splits)
qed

lemma run_pose_identity:
  assumes "run svd minimize cfg cam = Inr r"
  shows "camera_pose r = eye 4"
  using assms unfolding run_def Let_def linalg_inv_eye4
  by (auto split: sum.splits)

lemma run_Inr:
  assumes "generate_grid cfg = Inr grid" and "collecting cfg cam 0 grid init = Inr self"
    and "minimize (get_rigid_transform_error svd (intrinsics cfg) self) 1 = Inr z"
    and "get_rigid_transform_error svd (intrinsics cfg) self z = Inr rmse"
  shows "run svd minimize cfg cam
      = Inr \<lparr>camera_depth_scale = z, camera_pose = eye 4, samples = self\<rparr>"
  by (simp add: run_def assms linalg_inv_eye4)

text \<open>
  Claim C2, as amended.  The run does not look at the number of samples before it
  optimises.  Whatever the loop collected, the optimiser is called on the objective
  over these samples with the initial guess \<open>1\<close>: with one sample or more
  (one and two included) the value it returns is saved as the depth scale and the run
  reaches the saved calibration, an exception of the optimiser is the exception of the
  run, and with no sample at all the run ends in an exception of the optimiser or of
  the objective.
\<close>

theorem no_sample_count_check:
  assumes "generate_grid cfg = Inr grid" and "collecting cfg cam 0 grid init = Inr self"
  shows "(measured_pts self \<noteq> []
          \<and> minimize (get_rigid_transform_error svd (intrinsics cfg) self) 1 = Inr z
        \<longrightarrow> (\<exists>pose. run svd minimize cfg cam
                = Inr \<lparr>camera_depth_scale = z, camera_pose = pose, samples = self\<rparr>))
     \<and> (minimize (get_rigid_transform_error svd (intrinsics cfg) self) 1 = Inl e
        \<longrightarrow> run svd minimize cfg cam = Inl e)
     \<and> (measured_pts self = [] \<longrightarrow> (\<exists>e'. run svd minimize cfg cam = Inl e'))"
proof (intro conjI impI)
  assume a: "measured_pts self \<noteq> []
          \<and> minimize (get_rigid_transform_error svd (intrinsics cfg) self) 1 = Inr z"
  from objective_total [OF collecting_aligned [OF assms(2)], of svd "intrinsics cfg" z] a
  obtain rmse where "get_rigid_transform_error svd (intrinsics cfg) self z = Inr rmse"
    by blast
  with a have "run svd minimize cfg cam
      = Inr \<lparr>camera_depth_scale = z, camera_pose = eye 4, samples = self\<rparr>"
    by (simp add: run_def assms linalg_inv_eye4)
  then show "\<exists>pose. run svd minimize cfg cam
                = Inr \<lparr>camera_depth_scale = z, camera_pose = pose, samples = self\<rparr>"
    by blast
next
  assume "minimize (get_rigid_transform_error svd (intrinsics cfg) self) 1 = Inl e"
  then show "run svd minimize cfg cam = Inl e"
    by (simp add: run_def assms)
next
  assume "measured_pts self = []"
  from objective_empty [OF collecting_aligned [OF assms(2)] this]
  show "\<exists>e'. run svd minimize cfg cam = Inl e'"
    by (cases "minimize (get_rigid_transform_error svd (intrinsics cfg) self) 1")
      (simp_all add: run_def assms)
qed


lemma float_num_0_2_1: "float_num 0 2 1 = 3" and num_finite_0_2_1: "num_finite 0 2 1"
proof -
  have f1: "fl (2 - 0) = 2"
    by (subst fl_eval [of 1]) (simp_all add: np_round_def Let_def power_int_def power_one_over)
  have f2: "fl (2 / 1) = 2"
    by (subst fl_eval [of 1]) (simp_all add: np_round_def Let_def power_int_def power_one_over)
  have f3: "fl (1 + 2) = 3"
    by (subst fl_eval [of 1]) (simp_all add: np_round_def Let_def power_int_def power_one_over)
  show n: "float_num 0 2 1 = 3"
    unfolding float_num_def by (simp only: f1 f2 f3)
  show "num_finite 0 2 1"
    unfolding num_finite_def n by (simp only: f1 f2) (simp add: finite64_def power_int_def)
qed

lemma float_num_0_0_1: "float_num 0 0 1 = 1" and num_finite_0_0_1: "num_finite 0 0 1"
proof -
  have f1: "fl (0 - 0) = 0"
    by (simp add: fl_def np_round_def Let_def)
  have f2: "fl (0 / 1) = 0"
    by (simp add: fl_def np_round_def Let_def)
  have f3: "fl (1 + 0) = 1"
    by (subst fl_eval [of 0]) (simp_all add: np_round_def Let_def power_int_def power_one_over)
  show n: "float_num 0 0 1 = 1"
    unfolding float_num_def by (simp only: f1 f2 f3)
  show "num_finite 0 0 1"
    unfolding num_finite_def n by (simp only: f1 f2) (simp add: finite64_def power_int_def)
qed

lemma float_num_0_1_1: "float_num 0 1 1 = 2" and num_finite_0_1_1: "num_finite 0 1 1"
proof -
  have f1: "fl (1 - 0) = 1"
    by (subst fl_eval [of 0]) (simp_all add: np_round_def Let_def power_int_def power_one_over)
  have f2: "fl (1 / 1) = 1"
    by (subst fl_eval [of 0]) (simp_all add: np_round_def Let_def power_int_def power_one_over)
  have f3: "fl (1 + 1) = 2"
    by (subst fl_eval [of 1]) (simp_all add: np_round_def Let_def power_int_def power_one_over)
  show n: "float_num 0 1 1 = 2"
    unfolding float_num_def by (simp only: f1 f2 f3)
  show "num_finite 0 1 1"
    unfolding num_finite_def n by (simp only: f1 f2) (simp add: finite64_def power_int_def)
qed

lemma gridspace_unit_step:
  "gridspace (0, 2) 1 = Inr [0, 1, 2]" "gridspace (0, 1) 1 = Inr [0, 1]" "gridspace (0, 0) 1 = Inr [0]"
  by (simp_all add: gridspace_def axis_num_def py_int_def linspace_def upt_rec
      float_num_0_2_1 num_finite_0_2_1 float_num_0_1_1 num_finite_0_1_1
      float_num_0_0_1 num_finite_0_0_1)

lemma two_sample_grid:
  "generate_grid \<lparr>calib_grid_step = 1, checkerboard_offset_from_tool = (0, - 1, 2),
      tool_orientation = (0, 0, 0), workspace_limits = ((0, 2), (0, 0), (0, 0)),
      intrinsics = ((2, 0, 1), (0, 2, 1), (0, 0, 1))\<rparr> = Inr [(0, 0, 0), (1, 0, 0), (2, 0, 0)]"
  by (simp add: generate_grid_def gridspace_unit_step meshgrid_def flatten_def)

lemma two_sample_loop:
  "collecting \<lparr>calib_grid_step = 1, checkerboard_offset_from_tool = (0, - 1, 2),
      tool_orientation = (0, 0, 0), workspace_limits = ((0, 2), (0, 0), (0, 0)),
      intrinsics = ((2, 0, 1), (0, 2, 1), (0, 0, 1))\<rparr> (\<lambda>i. if i = 0 then \<lparr>checkerboard_found = True, corner4 = (3 / 5, 6 / 5), aligned_depth = [[4, 0], [0, 3]]\<rparr>
          else if i = 1 then \<lparr>checkerboard_found = True, corner4 = (1 / 5, 3 / 10), aligned_depth = [[4, 0], [0, 3]]\<rparr>
          else \<lparr>checkerboard_found = False, corner4 = (0, 0), aligned_depth = [[4, 0], [0, 3]]\<rparr>) 0 [(0, 0, 0), (1, 0, 0), (2, 0, 0)] init = Inr \<lparr>measured_pts = [(0, - 1, 2), (1, - 1, 2)], observed_pts = [(0, 0, 3), (- 2, - 2, 4)],
      observed_pix = [(1, 1), (0, 0)]\<rparr>"
  by (simp add: collect_sample_def getitem_def np_round_def init_def Let_def)

lemma no_sample_loop:
  "collecting \<lparr>calib_grid_step = 1, checkerboard_offset_from_tool = (0, - 1, 2),
      tool_orientation = (0, 0, 0), workspace_limits = ((0, 2), (0, 0), (0, 0)),
      intrinsics = ((2, 0, 1), (0, 2, 1), (0, 0, 1))\<rparr> (\<lambda>i. \<lparr>checkerboard_found = False, corner4 = (0, 0), aligned_depth = [[4, 0], [0, 3]]\<rparr>) 0 [(0, 0, 0), (1, 0, 0), (2, 0, 0)] init = Inr init"
  by (simp add: collect_sample_def)

text \<open>
  A run that collects two samples, the same run with an optimiser that fails, and a
  run that collects none.
\<close>

theorem no_sample_count_check_witness:
  "generate_grid \<lparr>calib_grid_step = 1, checkerboard_offset_from_tool = (0, - 1, 2),
      tool_orientation = (0, 0, 0), workspace_limits = ((0, 2), (0, 0), (0, 0)),
      intrinsics = ((2, 0, 1), (0, 2, 1), (0, 0, 1))\<rparr> = Inr [(0, 0, 0), (1, 0, 0), (2, 0, 0)]
   \<and> collecting \<lparr>calib_grid_step = 1, checkerboard_offset_from_tool = (0, - 1, 2),
      tool_orientation = (0, 0, 0), workspace_limits = ((0, 2), (0, 0), (0, 0)),
      intrinsics = ((2, 0, 1), (0, 2, 1), (0, 0, 1))\<rparr> (\<lambda>i. if i = 0 then \<lparr>checkerboard_found = True, corner4 = (3 / 5, 6 / 5), aligned_depth = [[4, 0], [0, 3]]\<rparr>
          else if i = 1 then \<lparr>checkerboard_found = True, corner4 = (1 / 5, 3 / 10), aligned_depth = [[4, 0], [0, 3]]\<rparr>
          else \<lparr>checkerboard_found = False, corner4 = (0, 0), aligned_depth = [[4, 0], [0, 3]]\<rparr>) 0 [(0, 0, 0), (1, 0, 0), (2, 0, 0)] init = Inr \<lparr>measured_pts = [(0, - 1, 2), (1, - 1, 2)], observed_pts = [(0, 0, 3), (- 2, - 2, 4)],
      observed_pix = [(1, 1), (0, 0)]\<rparr>
   \<and> measured_pts \<lparr>measured_pts = [(0, - 1, 2), (1, - 1, 2)], observed_pts = [(0, 0, 3), (- 2, - 2, 4)],
      observed_pix = [(1, 1), (0, 0)]\<rparr> \<noteq> []
   \<and> (\<lambda>f x0. case f x0 of Inl e \<Rightarrow> Inl e | Inr v \<Rightarrow> Inr x0) (get_rigid_transform_error (\<lambda>H. (eye3, (1, 1, 1), eye3)) ((2, 0, 1), (0, 2, 1), (0, 0, 1)) \<lparr>measured_pts = [(0, - 1, 2), (1, - 1, 2)], observed_pts = [(0, 0, 3), (- 2, - 2, 4)],
      observed_pix = [(1, 1), (0, 0)]\<rparr>) 1 = Inr 1
   \<and> (\<exists>pose. run (\<lambda>H. (eye3, (1, 1, 1), eye3)) (\<lambda>f x0. case f x0 of Inl e \<Rightarrow> Inl e | Inr v \<Rightarrow> Inr x0) \<lparr>calib_grid_step = 1, checkerboard_offset_from_tool = (0, - 1, 2),
      tool_orientation = (0, 0, 0), workspace_limits = ((0, 2), (0, 0), (0, 0)),
      intrinsics = ((2, 0, 1), (0, 2, 1), (0, 0, 1))\<rparr> (\<lambda>i. if i = 0 then \<lparr>checkerboard_found = True, corner4 = (3 / 5, 6 / 5), aligned_depth = [[4, 0], [0, 3]]\<rparr>
          else if i = 1 then \<lparr>checkerboard_found = True, corner4 = (1 / 5, 3 / 10), aligned_depth = [[4, 0], [0, 3]]\<rparr>
          else \<lparr>checkerboard_found = False, corner4 = (0, 0), aligned_depth = [[4, 0], [0, 3]]\<rparr>)
          = Inr \<lparr>camera_depth_scale = 1, camera_pose = pose, samples = \<lparr>measured_pts = [(0, - 1, 2), (1, - 1, 2)], observed_pts = [(0, 0, 3), (- 2, - 2, 4)],
      observed_pix = [(1, 1), (0, 0)]\<rparr>\<rparr>)
   \<and> (\<lambda>f x0. Inl ValueError) (get_rigid_transform_error (\<lambda>H. (eye3, (1, 1, 1), eye3)) ((2, 0, 1), (0, 2, 1), (0, 0, 1)) \<lparr>measured_pts = [(0, - 1, 2), (1, - 1, 2)], observed_pts = [(0, 0, 3), (- 2, - 2, 4)],
      observed_pix = [(1, 1), (0, 0)]\<rparr>) 1 = Inl ValueError
   \<and> run (\<lambda>H. (eye3, (1, 1, 1), eye3)) (\<lambda>f x0. Inl ValueError) \<lparr>calib_grid_step = 1, checkerboard_offset_from_tool = (0, - 1, 2),
      tool_orientation = (0, 0, 0), workspace_limits = ((0, 2), (0, 0), (0, 0)),
      intrinsics = ((2, 0, 1), (0, 2, 1), (0, 0, 1))\<rparr> (\<lambda>i. if i = 0 then \<lparr>checkerboard_found = True, corner4 = (3 / 5, 6 / 5), aligned_depth = [[4, 0], [0, 3]]\<rparr>
          else if i = 1 then \<lparr>checkerboard_found = True, corner4 = (1 / 5, 3 / 10), aligned_depth = [[4, 0], [0, 3]]\<rparr>
          else \<lparr>checkerboard_found = False, corner4 = (0, 0), aligned_depth = [[4, 0], [0, 3]]\<rparr>) = Inl ValueError
   \<and> collecting \<lparr>calib_grid_step = 1, checkerboard_offset_from_tool = (0, - 1, 2),
      tool_orientation = (0, 0, 0), workspace_limits = ((0, 2), (0, 0), (0, 0)),
      intrinsics = ((2, 0, 1), (0, 2, 1), (0, 0, 1))\<rparr> (\<lambda>i. \<lparr>checkerboard_found = False, corner4 = (0, 0), aligned_depth = [[4, 0], [0, 3]]\<rparr>) 0 [(0, 0, 0), (1, 0, 0), (2, 0, 0)] init = Inr init
   \<and> measured_pts init = []
   \<and> (\<exists>e'. run (\<lambda>H. (eye3, (1, 1, 1), eye3)) (\<lambda>f x0. case f x0 of Inl e \<Rightarrow> Inl e | Inr v \<Rightarrow> Inr x0) \<lparr>calib_grid_step = 1, checkerboard_offset_from_tool = (0, - 1, 2),
      tool_orientation = (0, 0, 0), workspace_limits = ((0, 2), (0, 0), (0, 0)),
      intrinsics = ((2, 0, 1), (0, 2, 1), (0, 0, 1))\<rparr> (\<lambda>i. \<lparr>checkerboard_found = False, corner4 = (0, 0), aligned_depth = [[4, 0], [0, 3]]\<rparr>) = Inl e')"
proof -
  have al: "aligned \<lparr>measured_pts = [(0, - 1, 2), (1, - 1, 2)], observed_pts = [(0, 0, 3), (- 2, - 2, 4)],
      observed_pix = [(1, 1), (0, 0)]\<rparr>"
    by (simp add: aligned_def)
  from objective_total [OF al, of "(\<lambda>H. (eye3, (1, 1, 1), eye3))" "((2, 0, 1), (0, 2, 1), (0, 0, 1))" 1]
  obtain rmse where "get_rigid_transform_error (\<lambda>H. (eye3, (1, 1, 1), eye3)) ((2, 0, 1), (0, 2, 1), (0, 0, 1)) \<lparr>measured_pts = [(0, - 1, 2), (1, - 1, 2)], observed_pts = [(0, 0, 3), (- 2, - 2, 4)],
      observed_pix = [(1, 1), (0, 0)]\<rparr> 1 = Inr rmse"
    by auto
  then have m: "(\<lambda>f x0. case f x0 of Inl e \<Rightarrow> Inl e | Inr v \<Rightarrow> Inr x0) (get_rigid_transform_error (\<lambda>H. (eye3, (1, 1, 1), eye3)) ((2, 0, 1), (0, 2, 1), (0, 0, 1)) \<lparr>measured_pts = [(0, - 1, 2), (1, - 1, 2)], observed_pts = [(0, 0, 3), (- 2, - 2, 4)],
      observed_pix = [(1, 1), (0, 0)]\<rparr>) 1 = Inr 1"
    by simp
  show ?thesis
    using m two_sample_grid two_sample_loop no_sample_loop
      no_sample_count_check [OF two_sample_grid two_sample_loop, of "(\<lambda>f x0. case f x0 of Inl e \<Rightarrow> Inl e | Inr v \<Rightarrow> Inr x0)" "(\<lambda>H. (eye3, (1, 1, 1), eye3))" 1 ValueError]
      no_sample_count_check [OF two_sample_grid two_sample_loop, of "(\<lambda>f x0. Inl ValueError)" "(\<lambda>H. (eye3, (1, 1, 1), eye3))" 1 ValueError]
      no_sample_count_check [OF two_sample_grid no_sample_loop, of "(\<lambda>f x0. case f x0 of Inl e \<Rightarrow> Inl e | Inr v \<Rightarrow> Inr x0)" "(\<lambda>H. (eye3, (1, 1, 1), eye3))" 1 ValueError]
    by (simp add: init_def)
qed

text \<open>
  Claim C2 as stated fails: a run that collects two samples optimises and saves a
  calibration, and raises nothing.
\<close>

theorem two_samples_optimized_counterexample:
  "collecting \<lparr>calib_grid_step = 1, checkerboard_offset_from_tool = (0, - 1, 2),
      tool_orientation = (0, 0, 0), workspace_limits = ((0, 2), (0, 0), (0, 0)),
      intrinsics = ((2, 0, 1), (0, 2, 1), (0, 0, 1))\<rparr> (\<lambda>i. if i = 0 then \<lparr>checkerboard_found = True, corner4 = (3 / 5, 6 / 5), aligned_depth = [[4, 0], [0, 3]]\<rparr>
          else if i = 1 then \<lparr>checkerboard_found = True, corner4 = (1 / 5, 3 / 10), aligned_depth = [[4, 0], [0, 3]]\<rparr>
          else \<lparr>checkerboard_found = False, corner4 = (0, 0), aligned_depth = [[4, 0], [0, 3]]\<rparr>) 0 [(0, 0, 0), (1, 0, 0), (2, 0, 0)] init = Inr \<lparr>measured_pts = [(0, - 1, 2), (1, - 1, 2)], observed_pts = [(0, 0, 3), (- 2, - 2, 4)],
      observed_pix = [(1, 1), (0, 0)]\<rparr>
   \<and> length (measured_pts \<lparr>measured_pts = [(0, - 1, 2), (1, - 1, 2)], observed_pts = [(0, 0, 3), (- 2, - 2, 4)],
      observed_pix = [(1, 1), (0, 0)]\<rparr>) = 2
   \<and> (2 :: nat) < 3
   \<and> run (\<lambda>H. (eye3, (1, 1, 1), eye3)) (\<lambda>f x0. case f x0 of Inl e \<Rightarrow> Inl e | Inr v \<Rightarrow> Inr x0) \<lparr>calib_grid_step = 1, checkerboard_offset_from_tool = (0, - 1, 2),
      tool_orientation = (0, 0, 0), workspace_limits = ((0, 2), (0, 0), (0, 0)),
      intrinsics = ((2, 0, 1), (0, 2, 1), (0, 0, 1))\<rparr> (\<lambda>i. if i = 0 then \<lparr>checkerboard_found = True, corner4 = (3 / 5, 6 / 5), aligned_depth = [[4, 0], [0, 3]]\<rparr>
          else if i = 1 then \<lparr>checkerboard_found = True, corner4 = (1 / 5, 3 / 10), aligned_depth = [[4, 0], [0, 3]]\<rparr>
          else \<lparr>checkerboard_found = False, corner4 = (0, 0), aligned_depth = [[4, 0], [0, 3]]\<rparr>)
       = Inr \<lparr>camera_depth_scale = 1, camera_pose = eye 4, samples = \<lparr>measured_pts = [(0, - 1, 2), (1, - 1, 2)], observed_pts = [(0, 0, 3), (- 2, - 2, 4)],
      observed_pix = [(1, 1), (0, 0)]\<rparr>\<rparr>"
proof -
  have al: "aligned \<lparr>measured_pts = [(0, - 1, 2), (1, - 1, 2)], observed_pts = [(0, 0, 3), (- 2, - 2, 4)],
      observed_pix = [(1, 1), (0, 0)]\<rparr>"
    by (simp add: aligned_def)
  from objective_total [OF al, of "(\<lambda>H. (eye3, (1, 1, 1), eye3))" "((2, 0, 1), (0, 2, 1), (0, 0, 1))" 1]
  obtain rmse where o: "get_rigid_transform_error (\<lambda>H. (eye3, (1, 1, 1), eye3)) ((2, 0, 1), (0, 2, 1), (0, 0, 1)) \<lparr>measured_pts = [(0, - 1, 2), (1, - 1, 2)], observed_pts = [(0, 0, 3), (- 2, - 2, 4)],
      observed_pix = [(1, 1), (0, 0)]\<rparr> 1 = Inr rmse"
    by auto
  have "run (\<lambda>H. (eye3, (1, 1, 1), eye3)) (\<lambda>f x0. case f x0 of Inl e \<Rightarrow> Inl e | Inr v \<Rightarrow> Inr x0) \<lparr>calib_grid_step = 1, checkerboard_offset_from_tool = (0, - 1, 2),
      tool_orientation = (0, 0, 0), workspace_limits = ((0, 2), (0, 0), (0, 0)),
      intrinsics = ((2, 0, 1), (0, 2, 1), (0, 0, 1))\<rparr> (\<lambda>i. if i = 0 then \<lparr>checkerboard_found = True, corner4 = (3 / 5, 6 / 5), aligned_depth = [[4, 0], [0, 3]]\<rparr>
          else if i = 1 then \<lparr>checkerboard_found = True, corner4 = (1 / 5, 3 / 10), aligned_depth = [[4, 0], [0, 3]]\<rparr>
          else \<lparr>checkerboard_found = False, corner4 = (0, 0), aligned_depth = [[4, 0], [0, 3]]\<rparr>)
       = Inr \<lparr>camera_depth_scale = 1, camera_pose = eye 4, samples = \<lparr>measured_pts = [(0, - 1, 2), (1, - 1, 2)], observed_pts = [(0, 0, 3), (- 2, - 2, 4)],
      observed_pix = [(1, 1), (0, 0)]\<rparr>\<rparr>"
    by (rule run_Inr [OF two_sample_grid two_sample_loop, where rmse = rmse]) (simp_all add: o)
  then show ?thesis
    using two_sample_loop by simp
qed


lemma four_sample_grid:
  "generate_grid \<lparr>calib_grid_step = 1, checkerboard_offset_from_tool = (0, 0, 0),
      tool_orientation = (0, 0, 0), workspace_limits = ((0, 1), (0, 1), (0, 0)),
      intrinsics = ((1, 0, 0), (0, 1, 0), (0, 0, 1))\<rparr> = Inr [(0, 0, 0), (1, 0, 0), (0, 1, 0), (1, 1, 0)]"
  by (simp add: generate_grid_def gridspace_unit_step meshgrid_def flatten_def)

lemma four_sample_loop:
  "collecting \<lparr>calib_grid_step = 1, checkerboard_offset_from_tool = (0, 0, 0),
      tool_orientation = (0, 0, 0), workspace_limits = ((0, 1), (0, 1), (0, 0)),
      intrinsics = ((1, 0, 0), (0, 1, 0), (0, 0, 1))\<rparr> (\<lambda>i. \<lparr>checkerboard_found = True,
            corner4 = (if i = 1 \<or> i = 3 then 1 else 0, if i = 2 \<or> i = 3 then 1 else 0),
            aligned_depth = [[1, 1], [1, 1]]\<rparr>) 0 [(0, 0, 0), (1, 0, 0), (0, 1, 0), (1, 1, 0)] init = Inr \<lparr>measured_pts = [(0, 0, 0), (1, 0, 0), (0, 1, 0), (1, 1, 0)],
      observed_pts = [(0, 0, 1), (1, 0, 1), (0, 1, 1), (1, 1, 1)],
      observed_pix = [(0, 0), (1, 0), (0, 1), (1, 1)]\<rparr>"
  by (simp add: collect_sample_def getitem_def np_round_def init_def Let_def)

lemma four_sample_points:
  "new_observed_pts ((1, 0, 0), (0, 1, 0), (0, 0, 1)) \<lparr>measured_pts = [(0, 0, 0), (1, 0, 0), (0, 1, 0), (1, 1, 0)],
      observed_pts = [(0, 0, 1), (1, 0, 1), (0, 1, 1), (1, 1, 1)],
      observed_pix = [(0, 0), (1, 0), (0, 1), (1, 1)]\<rparr> 1 = Inr [(0, 0, 1), (1, 0, 1), (0, 1, 1), (1, 1, 1)]"
  by (simp add: new_observed_pts_def np_multiply_def concatenate_cols_def)

lemma four_sample_covariance:
  "cross_covariance [(0, 0, 0), (1, 0, 0), (0, 1, 0), (1, 1, 0)] [(0, 0, 1), (1, 0, 1), (0, 1, 1), (1, 1, 1)] = ((1, 0, 0), (0, 1, 0), (0, 0, 0))"
  by (simp add: cross_covariance_def mean_axis0_def tile_rows_def sub_rows_def transpose_N3_def
      dot_3N_N3_def row_dot_def)

lemma four_sample_transform:
  "get_rigid_transform (\<lambda>H. (eye3, (1, 1, 0), eye3)) [(0, 0, 0), (1, 0, 0), (0, 1, 0), (1, 1, 0)] [(0, 0, 1), (1, 0, 1), (0, 1, 1), (1, 1, 1)] = Inr (eye3, (0, 0, 1))"
  by (simp add: get_rigid_transform_def mean_axis0_def mm_def eye3_def)

lemma four_sample_error:
  "get_rigid_transform_error (\<lambda>H. (eye3, (1, 1, 0), eye3)) ((1, 0, 0), (0, 1, 0), (0, 0, 1)) \<lparr>measured_pts = [(0, 0, 0), (1, 0, 0), (0, 1, 0), (1, 1, 0)],
      observed_pts = [(0, 0, 1), (1, 0, 1), (0, 1, 1), (1, 1, 1)],
      observed_pix = [(0, 0), (1, 0), (0, 1), (1, 1)]\<rparr> 1 = Inr 0"
  by (simp add: get_rigid_transform_error_def four_sample_points four_sample_transform)
    (simp add: add_3N_def dot_33_3N_def row_comb_def transpose_N3_def tile_cols_def
      transpose_3N_def sub_rows_def sum_squares_def eye3_def)

lemma inverse_of_estimate:
  "linalg_inv (homogeneous eye3 (0, 0, 1))
     = Inr [[1, 0, 0, 0], [0, 1, 0, 0], [0, 0, 1, - 1], [0, 0, 0, 1]]"
  by (simp add: homogeneous_def eye3_def linalg_inv_def delete_at_def upt_4 det_ll_4 det_ll_3
      Let_def del: det_ll.simps)

text \<open>
  Claim C1 at a concrete run.  Four samples are collected, the optimiser returns the
  scale \<open>1\<close>, at which the objective is \<open>0\<close>, and the transform estimated at that
  scale is the identity rotation with the translation \<open>(0, 0, 1)\<close>, from the genuine
  decomposition of the cross-covariance \<open>diag (1, 1, 0)\<close>.  The pose the run saves is
  the inverse of \<^verbatim>\<open>np.eye(4)\<close>, the identity, and not the inverse of that
  transform, whose last column is \<open>(0, 0, - 1, 1)\<close>.
\<close>

theorem persisted_pose_is_identity:
  "run (\<lambda>H. (eye3, (1, 1, 0), eye3)) (\<lambda>f x0. case f x0 of Inl e \<Rightarrow> Inl e | Inr v \<Rightarrow> Inr x0) \<lparr>calib_grid_step = 1, checkerboard_offset_from_tool = (0, 0, 0),
      tool_orientation = (0, 0, 0), workspace_limits = ((0, 1), (0, 1), (0, 0)),
      intrinsics = ((1, 0, 0), (0, 1, 0), (0, 0, 1))\<rparr> (\<lambda>i. \<lparr>checkerboard_found = True,
            corner4 = (if i = 1 \<or> i = 3 then 1 else 0, if i = 2 \<or> i = 3 then 1 else 0),
            aligned_depth = [[1, 1], [1, 1]]\<rparr>)
     = Inr \<lparr>camera_depth_scale = 1, camera_pose = eye 4, samples = \<lparr>measured_pts = [(0, 0, 0), (1, 0, 0), (0, 1, 0), (1, 1, 0)],
      observed_pts = [(0, 0, 1), (1, 0, 1), (0, 1, 1), (1, 1, 1)],
      observed_pix = [(0, 0), (1, 0), (0, 1), (1, 1)]\<rparr>\<rparr>
   \<and> eye 4 = [[1, 0, 0, 0], [0, 1, 0, 0], [0, 0, 1, 0], [0, 0, 0, 1]]
   \<and> new_observed_pts ((1, 0, 0), (0, 1, 0), (0, 0, 1)) \<lparr>measured_pts = [(0, 0, 0), (1, 0, 0), (0, 1, 0), (1, 1, 0)],
      observed_pts = [(0, 0, 1), (1, 0, 1), (0, 1, 1), (1, 1, 1)],
      observed_pix = [(0, 0), (1, 0), (0, 1), (1, 1)]\<rparr> 1 = Inr [(0, 0, 1), (1, 0, 1), (0, 1, 1), (1, 1, 1)]
   \<and> cross_covariance (measured_pts \<lparr>measured_pts = [(0, 0, 0), (1, 0, 0), (0, 1, 0), (1, 1, 0)],
      observed_pts = [(0, 0, 1), (1, 0, 1), (0, 1, 1), (1, 1, 1)],
      observed_pix = [(0, 0), (1, 0), (0, 1), (1, 1)]\<rparr>) [(0, 0, 1), (1, 0, 1), (0, 1, 1), (1, 1, 1)] = ((1, 0, 0), (0, 1, 0), (0, 0, 0))
   \<and> get_rigid_transform (\<lambda>H. (eye3, (1, 1, 0), eye3)) (measured_pts \<lparr>measured_pts = [(0, 0, 0), (1, 0, 0), (0, 1, 0), (1, 1, 0)],
      observed_pts = [(0, 0, 1), (1, 0, 1), (0, 1, 1), (1, 1, 1)],
      observed_pix = [(0, 0), (1, 0), (0, 1), (1, 1)]\<rparr>) [(0, 0, 1), (1, 0, 1), (0, 1, 1), (1, 1, 1)] = Inr (eye3, (0, 0, 1))
   \<and> get_rigid_transform_error (\<lambda>H. (eye3, (1, 1, 0), eye3)) ((1, 0, 0), (0, 1, 0), (0, 0, 1)) \<lparr>measured_pts = [(0, 0, 0), (1, 0, 0), (0, 1, 0), (1, 1, 0)],
      observed_pts = [(0, 0, 1), (1, 0, 1), (0, 1, 1), (1, 1, 1)],
      observed_pix = [(0, 0), (1, 0), (0, 1), (1, 1)]\<rparr> 1 = Inr 0
   \<and> linalg_inv (homogeneous eye3 (0, 0, 1))
       = Inr [[1, 0, 0, 0], [0, 1, 0, 0], [0, 0, 1, - 1], [0, 0, 0, 1]]"
proof -
  have "run (\<lambda>H. (eye3, (1, 1, 0), eye3)) (\<lambda>f x0. case f x0 of Inl e \<Rightarrow> Inl e | Inr v \<Rightarrow> Inr x0) \<lparr>calib_grid_step = 1, checkerboard_offset_from_tool = (0, 0, 0),
      tool_orientation = (0, 0, 0), workspace_limits = ((0, 1), (0, 1), (0, 0)),
      intrinsics = ((1, 0, 0), (0, 1, 0), (0, 0, 1))\<rparr> (\<lambda>i. \<lparr>checkerboard_found = True,
            corner4 = (if i = 1 \<or> i = 3 then 1 else 0, if i = 2 \<or> i = 3 then 1 else 0),
            aligned_depth = [[1, 1], [1, 1]]\<rparr>)
     = Inr \<lparr>camera_depth_scale = 1, camera_pose = eye 4, samples = \<lparr>measured_pts = [(0, 0, 0), (1, 0, 0), (0, 1, 0), (1, 1, 0)],
      observed_pts = [(0, 0, 1), (1, 0, 1), (0, 1, 1), (1, 1, 1)],
      observed_pix = [(0, 0), (1, 0), (0, 1), (1, 1)]\<rparr>\<rparr>"
    by (rule run_Inr [OF four_sample_grid four_sample_loop, where rmse = 0])
      (simp_all add: four_sample_error)
  then show ?thesis
    using four_sample_points four_sample_covariance four_sample_transform four_sample_error
      inverse_of_estimate eye_4
    by simp
qed

subsection \<open>The objective and the stored samples\<close>

lemma bind_new_array:
  "bind (new_array v) f s
     = f (next_free s) (s\<lparr>cells := (cells s)(next_free s := v), next_free := Suc (next_free s)\<rparr>)"
  by (simp add: bind_def new_array_def)

lemma bind_assign: "bind (assign a v) f s = f () (s\<lparr>cells := (cells s)(a := v)\<rparr>)"
  by (simp add: bind_def assign_def)

lemma bind_read_array: "bind (read_array a) f s = f (cells s a) s"
  by (simp add: bind_def read_array_def)

lemma bind_ret: "bind (ret x) f s = f x s"
  by (simp add: bind_def ret_def)

lemma bind_raise: "bind (raise e) f s = (Inl e, s)"
  by (simp add: bind_def raise_def)

lemma bind_if: "bind (if c then m1 else m2) f s = (if c then bind m1 f s else bind m2 f s)"
  by simp

lemma bind_assoc: "bind (bind m f) g s = bind m (\<lambda>x. bind (f x) g) s"
  by (simp add: bind_def split: prod.splits sum.splits)

lemmas exec = bind_assoc bind_new_array bind_assign bind_read_array bind_ret bind_raise ret_def raise_def

lemma get_rigid_transform_store_spec:
  assumes "cells s a = Pts A" and "cells s b = Pts B"
    and "a < next_free s" and "b < next_free s"
  shows "case get_rigid_transform_store svd a b s of
      (r, s') \<Rightarrow> preserved s s'
        \<and> (case get_rigid_transform svd A B of
              Inl e \<Rightarrow> r = Inl e
            | Inr (R, t) \<Rightarrow> (\<exists>R_cell t_cell. r = Inr (R_cell, t_cell)
                 \<and> next_free s \<le> t_cell \<and> t_cell < next_free s'
                 \<and> cells s' R_cell = Mat R \<and> cells s' t_cell = Vec t))"
proof (cases "length A = length B")
  case False
  then show ?thesis
    using assms
    by (simp add: get_rigid_transform_store_def get_rigid_transform_def preserved_def exec)
next
  case True
  obtain U S Vt where svd: "svd (dot_3N_N3 (transpose_N3 (sub_rows A (tile_rows (mean_axis0 A) (length A))))
                (sub_rows B (tile_rows (mean_axis0 B) (length A)))) = (U, S, Vt)"
    by (metis prod_cases3)
  show ?thesis
  proof (cases "det3 (mm (transpose3 Vt) (transpose3 U)) < 0")
    case neg: True
    show ?thesis
      using assms True svd neg
      by (simp add: get_rigid_transform_store_def get_rigid_transform_def preserved_def exec Let_def)
  next
    case pos: False
    show ?thesis
      using assms True svd pos
      by (simp add: get_rigid_transform_store_def get_rigid_transform_def preserved_def exec Let_def)
  qed
qed

lemma get_rigid_transform_error_store_spec:
  assumes "cells s (measured_cell self) = Pts M" and "cells s (observed_cell self) = Pts Ob"
    and "cells s (pix_cell self) = Pix P"
    and "measured_cell self < next_free s" and "observed_cell self < next_free s"
    and "pix_cell self < next_free s"
  shows "case get_rigid_transform_error_store svd K self z_scale s of
      (r, s') \<Rightarrow> preserved s s'
        \<and> r = get_rigid_transform_error svd K
                \<lparr>measured_pts = M, observed_pts = Ob, observed_pix = P\<rparr> z_scale"
proof -
  obtain fx k01 cx k10 fy cy k2 where K: "K = ((fx, k01, cx), (k10, fy, cy), k2)"
    by (metis prod_cases3)
  show ?thesis
  proof (cases "new_observed_pts K \<lparr>measured_pts = M, observed_pts = Ob, observed_pix = P\<rparr> z_scale")
    case (Inl e)
    then show ?thesis
      using assms
      by (auto simp: get_rigid_transform_error_store_def get_rigid_transform_error_def
          new_observed_pts_def K preserved_def exec Let_def split: sum.splits if_splits)
  next
    case (Inr new_pts)
    let ?zs = "map (\<lambda>p. snd (snd p) * z_scale) Ob"
    from Inr have ne: "Ob \<noteq> []" "P \<noteq> []"
      by (auto simp: new_observed_pts_def K split: if_splits)
    from Inr ne obtain xs where
      xs: "np_multiply (map (\<lambda>q. real_of_int (fst q) - cx) P) (map (\<lambda>z. z / fx) ?zs) = Inr xs"
      by (auto simp: new_observed_pts_def K Let_def split: sum.splits)
    from Inr ne xs obtain ys where
      ys: "np_multiply (map (\<lambda>q. real_of_int (snd q) - cy) P) (map (\<lambda>z. z / fy) ?zs) = Inr ys"
      by (auto simp: new_observed_pts_def K Let_def split: sum.splits)
    from Inr ne xs ys have cat: "concatenate_cols xs ys ?zs = Inr new_pts"
      by (simp add: new_observed_pts_def K Let_def)
    show ?thesis
    proof (cases "length M = length new_pts")
      case False
      then show ?thesis
        using assms Inr ne xs ys cat
        by (simp add: get_rigid_transform_error_store_def get_rigid_transform_store_def
            get_rigid_transform_error_def get_rigid_transform_def K preserved_def exec Let_def)
    next
      case True
      obtain U S Vt where svd:
        "svd (dot_3N_N3 (transpose_N3 (sub_rows M (tile_rows (mean_axis0 M) (length M))))
                (sub_rows new_pts (tile_rows (mean_axis0 new_pts) (length M)))) = (U, S, Vt)"
        by (metis prod_cases3)
      show ?thesis
      proof (cases "det3 (mm (transpose3 Vt) (transpose3 U)) < 0")
        case neg: True
        show ?thesis
          using assms Inr ne xs ys cat True svd neg
          by (simp add: get_rigid_transform_error_store_def get_rigid_transform_store_def
              get_rigid_transform_error_def get_rigid_transform_def K preserved_def exec Let_def)
      next
        case pos: False
        show ?thesis
          using assms Inr ne xs ys cat True svd pos
          by (simp add: get_rigid_transform_error_store_def get_rigid_transform_store_def
              get_rigid_transform_error_def get_rigid_transform_def K preserved_def exec Let_def)
      qed
    qed
  qed
qed

text \<open>
  Claim C9.  When the object holds its three arrays in cells of the store, an
  evaluation of the objective at any \<open>z_scale\<close> leaves these three cells, and every
  cell allocated before the call, as they were: all its writes go to arrays it has
  created itself.  Its result is the value of the objective on the contents of the
  three cells, so that a second evaluation at the same \<open>z_scale\<close>, in the store the
  first one leaves, returns the same result.
\<close>

theorem objective_leaves_samples:
  assumes "cells s (measured_cell self) = Pts M" and "cells s (observed_cell self) = Pts Ob"
    and "cells s (pix_cell self) = Pix P"
    and "measured_cell self < next_free s" and "observed_cell self < next_free s"
    and "pix_cell self < next_free s"
  shows "case get_rigid_transform_error_store svd K self z_scale s of
      (r, s') \<Rightarrow>
        cells s' (measured_cell self) = Pts M \<and> cells s' (observed_cell self) = Pts Ob
        \<and> cells s' (pix_cell self) = Pix P
        \<and> (\<forall>x < next_free s. cells s' x = cells s x)
        \<and> r = get_rigid_transform_error svd K
                \<lparr>measured_pts = M, observed_pts = Ob, observed_pix = P\<rparr> z_scale
        \<and> fst (get_rigid_transform_error_store svd K self z_scale s') = r"
proof -
  obtain r s' where run: "get_rigid_transform_error_store svd K self z_scale s = (r, s')"
    by (cases "get_rigid_transform_error_store svd K self z_scale s")
  from get_rigid_transform_error_store_spec [OF assms, of svd K z_scale] run
  have fr: "preserved s s'"
    and r: "r = get_rigid_transform_error svd K
                \<lparr>measured_pts = M, observed_pts = Ob, observed_pix = P\<rparr> z_scale"
    by simp_all
  from fr assms have same: "cells s' (measured_cell self) = Pts M"
    "cells s' (observed_cell self) = Pts Ob" "cells s' (pix_cell self) = Pix P"
    and lt: "measured_cell self < next_free s'" "observed_cell self < next_free s'"
      "pix_cell self < next_free s'"
    by (auto simp: preserved_def)
  from get_rigid_transform_error_store_spec [OF same lt, of svd K z_scale]
  have "fst (get_rigid_transform_error_store svd K self z_scale s') = r"
    using r by (simp add: split_beta)
  with fr r same show ?thesis
    by (simp add: run preserved_def)
qed

text \<open>
  A store with three samples, evaluated twice at the scale \<open>1 / 2\<close>.
\<close>

theorem objective_leaves_samples_witness:
  "cells \<lparr>cells = (\<lambda>a. if a = 0 then Pts [(2, 2, 0), (5, 2, 0), (2, 5, 0)] else if a = 1 then Pts [(6, 6, 2), (12, 6, 2), (0, 6, 2)] else if a = 2 then Pix [(3, 3), (6, 3), (0, 3)] else Arr []),
       next_free = 3\<rparr> (measured_cell \<lparr>measured_cell = 0, observed_cell = 1, pix_cell = 2\<rparr>) = Pts [(2, 2, 0), (5, 2, 0), (2, 5, 0)]
   \<and> cells \<lparr>cells = (\<lambda>a. if a = 0 then Pts [(2, 2, 0), (5, 2, 0), (2, 5, 0)] else if a = 1 then Pts [(6, 6, 2), (12, 6, 2), (0, 6, 2)] else if a = 2 then Pix [(3, 3), (6, 3), (0, 3)] else Arr []),
       next_free = 3\<rparr> (observed_cell \<lparr>measured_cell = 0, observed_cell = 1, pix_cell = 2\<rparr>) = Pts [(6, 6, 2), (12, 6, 2), (0, 6, 2)]
   \<and> cells \<lparr>cells = (\<lambda>a. if a = 0 then Pts [(2, 2, 0), (5, 2, 0), (2, 5, 0)] else if a = 1 then Pts [(6, 6, 2), (12, 6, 2), (0, 6, 2)] else if a = 2 then Pix [(3, 3), (6, 3), (0, 3)] else Arr []),
       next_free = 3\<rparr> (pix_cell \<lparr>measured_cell = 0, observed_cell = 1, pix_cell = 2\<rparr>) = Pix [(3, 3), (6, 3), (0, 3)]
   \<and> measured_cell \<lparr>measured_cell = 0, observed_cell = 1, pix_cell = 2\<rparr> < next_free \<lparr>cells = (\<lambda>a. if a = 0 then Pts [(2, 2, 0), (5, 2, 0), (2, 5, 0)] else if a = 1 then Pts [(6, 6, 2), (12, 6, 2), (0, 6, 2)] else if a = 2 then Pix [(3, 3), (6, 3), (0, 3)] else Arr []),
       next_free = 3\<rparr>
   \<and> observed_cell \<lparr>measured_cell = 0, observed_cell = 1, pix_cell = 2\<rparr> < next_free \<lparr>cells = (\<lambda>a. if a = 0 then Pts [(2, 2, 0), (5, 2, 0), (2, 5, 0)] else if a = 1 then Pts [(6, 6, 2), (12, 6, 2), (0, 6, 2)] else if a = 2 then Pix [(3, 3), (6, 3), (0, 3)] else Arr []),
       next_free = 3\<rparr>
   \<and> pix_cell \<lparr>measured_cell = 0, observed_cell = 1, pix_cell = 2\<rparr> < next_free \<lparr>cells = (\<lambda>a. if a = 0 then Pts [(2, 2, 0), (5, 2, 0), (2, 5, 0)] else if a = 1 then Pts [(6, 6, 2), (12, 6, 2), (0, 6, 2)] else if a = 2 then Pix [(3, 3), (6, 3), (0, 3)] else Arr []),
       next_free = 3\<rparr>
   \<and> cells (snd (get_rigid_transform_error_store (\<lambda>H. (eye3, (1, 1, 1), eye3)) eye3 \<lparr>measured_cell = 0, observed_cell = 1, pix_cell = 2\<rparr> (1 / 2) \<lparr>cells = (\<lambda>a. if a = 0 then Pts [(2, 2, 0), (5, 2, 0), (2, 5, 0)] else if a = 1 then Pts [(6, 6, 2), (12, 6, 2), (0, 6, 2)] else if a = 2 then Pix [(3, 3), (6, 3), (0, 3)] else Arr []),
       next_free = 3\<rparr>)) 0 = Pts [(2, 2, 0), (5, 2, 0), (2, 5, 0)]
   \<and> cells (snd (get_rigid_transform_error_store (\<lambda>H. (eye3, (1, 1, 1), eye3)) eye3 \<lparr>measured_cell = 0, observed_cell = 1, pix_cell = 2\<rparr> (1 / 2) \<lparr>cells = (\<lambda>a. if a = 0 then Pts [(2, 2, 0), (5, 2, 0), (2, 5, 0)] else if a = 1 then Pts [(6, 6, 2), (12, 6, 2), (0, 6, 2)] else if a = 2 then Pix [(3, 3), (6, 3), (0, 3)] else Arr []),
       next_free = 3\<rparr>)) 1 = Pts [(6, 6, 2), (12, 6, 2), (0, 6, 2)]
   \<and> cells (snd (get_rigid_transform_error_store (\<lambda>H. (eye3, (1, 1, 1), eye3)) eye3 \<lparr>measured_cell = 0, observed_cell = 1, pix_cell = 2\<rparr> (1 / 2) \<lparr>cells = (\<lambda>a. if a = 0 then Pts [(2, 2, 0), (5, 2, 0), (2, 5, 0)] else if a = 1 then Pts [(6, 6, 2), (12, 6, 2), (0, 6, 2)] else if a = 2 then Pix [(3, 3), (6, 3), (0, 3)] else Arr []),
       next_free = 3\<rparr>)) 2 = Pix [(3, 3), (6, 3), (0, 3)]
   \<and> fst (get_rigid_transform_error_store (\<lambda>H. (eye3, (1, 1, 1), eye3)) eye3 \<lparr>measured_cell = 0, observed_cell = 1, pix_cell = 2\<rparr> (1 / 2) \<lparr>cells = (\<lambda>a. if a = 0 then Pts [(2, 2, 0), (5, 2, 0), (2, 5, 0)] else if a = 1 then Pts [(6, 6, 2), (12, 6, 2), (0, 6, 2)] else if a = 2 then Pix [(3, 3), (6, 3), (0, 3)] else Arr []),
       next_free = 3\<rparr>)
       = get_rigid_transform_error (\<lambda>H. (eye3, (1, 1, 1), eye3)) eye3
           \<lparr>measured_pts = [(2, 2, 0), (5, 2, 0), (2, 5, 0)], observed_pts = [(6, 6, 2), (12, 6, 2), (0, 6, 2)], observed_pix = [(3, 3), (6, 3), (0, 3)]\<rparr> (1 / 2)
   \<and> fst (get_rigid_transform_error_store (\<lambda>H. (eye3, (1, 1, 1), eye3)) eye3 \<lparr>measured_cell = 0, observed_cell = 1, pix_cell = 2\<rparr> (1 / 2)
             (snd (get_rigid_transform_error_store (\<lambda>H. (eye3, (1, 1, 1), eye3)) eye3 \<lparr>measured_cell = 0, observed_cell = 1, pix_cell = 2\<rparr> (1 / 2) \<lparr>cells = (\<lambda>a. if a = 0 then Pts [(2, 2, 0), (5, 2, 0), (2, 5, 0)] else if a = 1 then Pts [(6, 6, 2), (12, 6, 2), (0, 6, 2)] else if a = 2 then Pix [(3, 3), (6, 3), (0, 3)] else Arr []),
       next_free = 3\<rparr>)))
       = fst (get_rigid_transform_error_store (\<lambda>H. (eye3, (1, 1, 1), eye3)) eye3 \<lparr>measured_cell = 0, observed_cell = 1, pix_cell = 2\<rparr> (1 / 2) \<lparr>cells = (\<lambda>a. if a = 0 then Pts [(2, 2, 0), (5, 2, 0), (2, 5, 0)] else if a = 1 then Pts [(6, 6, 2), (12, 6, 2), (0, 6, 2)] else if a = 2 then Pix [(3, 3), (6, 3), (0, 3)] else Arr []),
       next_free = 3\<rparr>)"
  using objective_leaves_samples [of "\<lparr>cells = (\<lambda>a. if a = 0 then Pts [(2, 2, 0), (5, 2, 0), (2, 5, 0)] else if a = 1 then Pts [(6, 6, 2), (12, 6, 2), (0, 6, 2)] else if a = 2 then Pix [(3, 3), (6, 3), (0, 3)] else Arr []),
       next_free = 3\<rparr>" "\<lparr>measured_cell = 0, observed_cell = 1, pix_cell = 2\<rparr>" "[(2, 2, 0), (5, 2, 0), (2, 5, 0)]" "[(6, 6, 2), (12, 6, 2), (0, 6, 2)]" "[(3, 3), (6, 3), (0, 3)]" "(\<lambda>H. (eye3, (1, 1, 1), eye3))" eye3 "1 / 2"]
  by (simp add: split_beta)

end
